theory Spec2Isabelle
  imports Main
begin

section \<open>JavaScript values used by the upload pipeline\<close>

text \<open>
  An \<open>Error\<close> object as the pipeline reads it: \<open>message\<close> always, and the optional
  properties \<open>code\<close> (set by Node on system errors such as ECONNRESET), \<open>statusCode\<close>
  and \<open>body\<close> (set by attemptStreamUpload). A missing property is \<open>None\<close>
  (JavaScript's undefined). HTTP status codes are natural numbers.
\<close>

record js_error =
  message :: string
  code :: "string option"
  statusCode :: "nat option"
  body :: "string option"

definition new_Error :: "string \<Rightarrow> js_error" where
  "new_Error m = \<lparr>message = m, code = None, statusCode = None, body = None\<rparr>"

text \<open>What a \<open>throw\<close> can carry here: an Error object, or the value undefined.\<close>

datatype thrown = Undefined | ErrorObj js_error

text \<open>A parsed JSON value. Numbers are kept as integers, which is all the code looks at.\<close>

datatype json =
  JNull | JBool bool | JNum int | JStr string | JArr "json list" | JObj "(string \<times> json) list"

text \<open>JavaScript truthiness of a JSON value, as \<open>||\<close> tests it.\<close>

fun truthy :: "json \<Rightarrow> bool" where
  "truthy JNull = False"
| "truthy (JBool b) = b"
| "truthy (JNum n) = (n \<noteq> 0)"
| "truthy (JStr s) = (s \<noteq> [])"
| "truthy (JArr xs) = True"
| "truthy (JObj kvs) = True"

text \<open>Decimal rendering of a number inside a template string.\<close>

function string_of_nat :: "nat \<Rightarrow> string" where
  "string_of_nat n =
     (if n < 10 then [''0123456789'' ! n]
      else string_of_nat (n div 10) @ [''0123456789'' ! (n mod 10)])"
  by pat_completeness auto
termination
  by (relation "measure (\<lambda>n. n)") auto

declare string_of_nat.simps [simp del]

text \<open>
  A request field that is a string when present: \<open>None\<close> is undefined or null, and the
  empty string is falsy like them.
\<close>

definition truthy_s :: "string option \<Rightarrow> bool" where
  "truthy_s v = (case v of None \<Rightarrow> False | Some s \<Rightarrow> s \<noteq> [])"

text \<open>
  A JavaScript number as far as lengths go: NaN, an integer that a double holds exactly,
  or \<open>Rounded n\<close>, the double nearest to an integer \<open>n\<close> beyond 2^53 in magnitude.
\<close>

datatype jsnum = NaN | Num int | Rounded int

text \<open>The characters that \<open>\s\<close> and \<open>trim\<close> treat as white space, among the 256 of a header value.\<close>

definition js_space :: "char \<Rightarrow> bool" where
  "js_space c \<longleftrightarrow> (of_char c :: nat) \<in> {9, 10, 11, 12, 13, 32, 160}"

definition is_digit :: "char \<Rightarrow> bool" where
  "is_digit c \<longleftrightarrow> 48 \<le> (of_char c :: nat) \<and> (of_char c :: nat) \<le> 57"

text \<open>
  \<open>parseInt(s, 10)\<close>: leading white space, an optional sign, the longest run of digits;
  the value is the double nearest to the number the digits spell.
\<close>

definition parseInt :: "string \<Rightarrow> jsnum" where
  "parseInt s =
     (let t = dropWhile js_space s;
          neg = (case t of [] \<Rightarrow> False | c # r \<Rightarrow> c = CHR ''-'');
          u = (case t of [] \<Rightarrow> [] | c # r \<Rightarrow> if c = CHR ''-'' \<or> c = CHR ''+'' then r else t);
          ds = takeWhile is_digit u;
          n = foldl (\<lambda>a c. 10 * a + (int (of_char c) - 48)) 0 ds
      in if ds = [] then NaN
         else if n \<le> 9007199254740992 then Num (if neg then - n else n)
         else Rounded (if neg then - n else n))"

section \<open>Data model: jobs and the effects of a request\<close>

record upload_result =
  res_statusCode :: nat
  videoId :: json
  rawResponse :: "string option"

datatype status = Pending | Downloading | Uploading | Completed | Failed

definition terminal :: "status \<Rightarrow> bool" where
  "terminal s \<longleftrightarrow> s = Completed \<or> s = Failed"

text \<open>The object \<open>{ message: err.message, code: err.code }\<close> stored in \<open>job.error\<close>.\<close>

datatype job_error = JobError string "string option"

text \<open>
  A job object. Timestamps are the milliseconds that the ISO strings of the source
  spell out (\<open>new Date(s)\<close> reads the same number back). \<open>None\<close> is null, or for
  \<open>completedAt\<close> a property not yet set; a null \<open>videoMetadata\<close> is \<open>JNull\<close>.
\<close>

record job =
  job_id :: string
  status :: status
  createdAt :: nat
  job_videoUrl :: string
  job_videoMetadata :: json
  result :: "upload_result option"
  error :: "job_error option"
  completedAt :: "nat option"

text \<open>The JSON bodies the handler sends: an error object, the acknowledgment, or a job.\<close>

datatype payload = ErrorBody string "string option" | Accepted string | JobBody job

text \<open>An assignment to a property of the request's job object.\<close>

datatype field_upd =
  SetStatus status | SetCompletedAt nat | SetResult upload_result | SetError job_error

fun assign :: "field_upd \<Rightarrow> job \<Rightarrow> job" where
  "assign (SetStatus s) j = j\<lparr>status := s\<rparr>"
| "assign (SetCompletedAt t) j = j\<lparr>completedAt := Some t\<rparr>"
| "assign (SetResult r) j = j\<lparr>result := Some r\<rparr>"
| "assign (SetError e) j = j\<lparr>error := Some e\<rparr>"

text \<open>
  The effects of a request, in program order: an assignment to the job object, a HEAD
  probe of the source, a transfer attempt (numbered as the retry loop numbers it), the
  timer between two attempts (milliseconds), a \<open>console.error\<close> line (its fixed text),
  and the response sent to the caller.
\<close>

datatype event =
  Write field_upd | Probe string | Attempt nat | Delay nat | ConsoleError string
| Respond nat payload

text \<open>The job object after the assignments of a run.\<close>

fun job_after :: "job \<Rightarrow> event list \<Rightarrow> job" where
  "job_after j [] = j"
| "job_after j (Write u # es) = job_after (assign u j) es"
| "job_after j (e # es) = job_after j es"

text \<open>
  What a poll can see. The server is single-threaded: another request is served only
  while this one awaits, that is during a probe, an attempt or a timer, and after the
  run has ended. Assignments between two such points are never seen apart.
\<close>

fun poll_views :: "job \<Rightarrow> event list \<Rightarrow> job list" where
  "poll_views j [] = [j]"
| "poll_views j (Write u # es) = poll_views (assign u j) es"
| "poll_views j (Probe url # es) = j # poll_views j es"
| "poll_views j (Attempt k # es) = j # poll_views j es"
| "poll_views j (Delay d # es) = j # poll_views j es"
| "poll_views j (e # es) = poll_views j es"

text \<open>
  The values assigned to \<open>job.status\<close> during a run; with the status the job was
  created with in front, the history of the job's status. Likewise the values assigned to
  \<open>completedAt\<close>, \<open>result\<close> and \<open>error\<close>.
\<close>

definition status_writes :: "event list \<Rightarrow> status list" where
  "status_writes es = [s. Write (SetStatus s) \<leftarrow> es]"

definition status_history :: "job \<Rightarrow> event list \<Rightarrow> status list" where
  "status_history j es = status j # status_writes es"

definition completedAt_writes :: "event list \<Rightarrow> nat list" where
  "completedAt_writes es = [t. Write (SetCompletedAt t) \<leftarrow> es]"

definition result_writes :: "event list \<Rightarrow> upload_result list" where
  "result_writes es = [r. Write (SetResult r) \<leftarrow> es]"

definition error_writes :: "event list \<Rightarrow> job_error list" where
  "error_writes es = [e. Write (SetError e) \<leftarrow> es]"

text \<open>
  The transition graph as the specification words it: pending to downloading to
  uploading to completed, and failed from any status that is not terminal.
\<close>

fun spec_transition :: "status \<Rightarrow> status \<Rightarrow> bool" where
  "spec_transition Pending Downloading = True"
| "spec_transition Downloading Uploading = True"
| "spec_transition Uploading Completed = True"
| "spec_transition s Failed = (\<not> terminal s)"
| "spec_transition s t = False"

text \<open>The attempts made, the timers set and the probes sent during a run, in order.\<close>

definition attempts :: "event list \<Rightarrow> nat list" where
  "attempts es = [k. Attempt k \<leftarrow> es]"

definition delays :: "event list \<Rightarrow> nat list" where
  "delays es = [d. Delay d \<leftarrow> es]"

definition probes :: "event list \<Rightarrow> string list" where
  "probes es = [u. Probe u \<leftarrow> es]"

section \<open>Size Resolver (getContentLength)\<close>

text \<open>
  The outcome of the one HEAD request: an \<open>error\<close> event (a URL that does not parse
  rejects the same way), the 15 s timer firing, or a response with its status and headers
  (names in lower case, as Node gives them). The request is sent with \<open>http.request\<close>
  or \<open>https.request\<close>, which hand over the first response whatever its status.
\<close>

datatype head_outcome = HeadError js_error | HeadTimeout | HeadResponse nat "(string \<times> string) list"

definition getContentLength :: "(string \<Rightarrow> head_outcome) \<Rightarrow> string \<Rightarrow> js_error + jsnum" where
  "getContentLength net url =
     (case net url of
        HeadError err \<Rightarrow> Inl err
      | HeadTimeout \<Rightarrow> Inl (new_Error ''HEAD request timeout'')
      | HeadResponse st hdrs \<Rightarrow>
          (case map_of hdrs ''content-length'' of
             Some len \<Rightarrow> Inr (parseInt len)
           | None \<Rightarrow> Inl (new_Error
               ''Source URL does not provide Content-Length. Pass contentLength in the request body.'')))"

text \<open>
  The handler resolves the length twice with the same code, before negotiating a session
  and at the start of runUpload:
  \<open>let n = contentLength; if (n == null) n = await getContentLength(videoUrl);\<close>
\<close>

definition resolvedContentLength ::
  "(string \<Rightarrow> head_outcome) \<Rightarrow> jsnum option \<Rightarrow> string \<Rightarrow> (js_error + jsnum) \<times> event list" where
  "resolvedContentLength net contentLength url =
     (case contentLength of
        Some n \<Rightarrow> (Inr n, [])
      | None \<Rightarrow> (getContentLength net url, [Probe url]))"

section \<open>Session Initiator (createResumableSession)\<close>

text \<open>
  The outcome of the session request: an \<open>error\<close> event, or a response with its status,
  its \<open>location\<close> header and its body.
\<close>

datatype session_outcome = SessionError js_error | SessionResponse nat "string option" string

definition createResumableSession :: "session_outcome \<Rightarrow> js_error + string" where
  "createResumableSession out =
     (case out of
        SessionError err \<Rightarrow> Inl err
      | SessionResponse st location d \<Rightarrow>
          (if truthy_s location then Inr (the location)
           else Inl (new_Error (if d \<noteq> [] then d else ''HTTP '' @ string_of_nat st))))"

section \<open>Relay Engine: one transfer attempt (attemptStreamUpload)\<close>

text \<open>
  What the network does during one attempt, as the event that settles the attempt's
  promise first (a promise settles once; later events change nothing). The download
  request fails with an \<open>error\<close> event (a URL that does not parse is such a failure
  too), or stays silent for 60 s and is destroyed, or the source answers with a status.
  In the last case the upload request fails (its own \<open>error\<close> event, or the pipeline
  between the two streams), or the destination's response ends with a status and the
  accumulated body. Before any of that, creating the upload request can throw:
  \<open>new URL(uploadUrl)\<close> for a URL that does not parse, \<open>request\<close> for a protocol or
  a header value it refuses. That happens inside the download callback, outside the
  promise's executor: nothing catches the exception and the promise never settles.
\<close>

datatype put_outcome = PutThrows | PutError js_error | PutEnd nat string

datatype get_outcome = GetError js_error | GetTimeout | GetResponse nat put_outcome

text \<open>
  \<open>try { const json = JSON.parse(body); videoId = json.id || null; } catch (_) {}\<close>
  on the outcome of \<open>JSON.parse\<close> (\<open>None\<close>: it threw). Reading \<open>.id\<close> of null throws
  and is caught; booleans, numbers, strings and arrays have no \<open>id\<close> property.
\<close>

fun videoId_of :: "json option \<Rightarrow> json" where
  "videoId_of None = JNull"
| "videoId_of (Some JNull) = JNull"
| "videoId_of (Some (JObj kvs)) =
     (case map_of kvs ''id'' of
        None \<Rightarrow> JNull
      | Some v \<Rightarrow> if truthy v then v else JNull)"
| "videoId_of (Some v) = JNull"

text \<open>The \<open>end\<close> handler of the destination's response. \<open>parse\<close> is \<open>JSON.parse\<close>.\<close>

definition on_put_end :: "(string \<Rightarrow> json option) \<Rightarrow> nat \<Rightarrow> string \<Rightarrow> js_error + upload_result" where
  "on_put_end parse st b =
     (if st = 201 \<or> st = 200 then
        Inr \<lparr>res_statusCode = st, videoId = videoId_of (parse b),
             rawResponse = (if length b > 0 then Some b else None)\<rparr>
      else if st = 308 then
        Inl ((new_Error ''Upload incomplete (308), will retry'')\<lparr>statusCode := Some 308\<rparr>)
      else
        Inl ((new_Error (''YouTube upload failed: HTTP '' @ string_of_nat st @ '' - '' @ b))
               \<lparr>statusCode := Some st, body := Some b\<rparr>))"

text \<open>
  How the attempt's promise settles: \<open>Some (Inl err)\<close> when it rejects with \<open>err\<close>,
  \<open>Some (Inr r)\<close> when it resolves with \<open>r\<close>, \<open>None\<close> when it never settles.
\<close>

fun attemptStreamUpload ::
  "(string \<Rightarrow> json option) \<Rightarrow> get_outcome \<Rightarrow> (js_error + upload_result) option" where
  "attemptStreamUpload parse (GetError err) = Some (Inl err)"
| "attemptStreamUpload parse GetTimeout = Some (Inl (new_Error ''Download timeout''))"
| "attemptStreamUpload parse (GetResponse st put) =
     (if st \<ge> 400
      then Some (Inl (new_Error (''Failed to download video: HTTP '' @ string_of_nat st)))
      else (case put of
              PutThrows \<Rightarrow> None
            | PutError err \<Rightarrow> Some (Inl err)
            | PutEnd pst b \<Rightarrow> Some (on_put_end parse pst b)))"

section \<open>Retry Controller (streamVideoToYouTube)\<close>

definition maxRetries :: nat where
  "maxRetries = 3"

text \<open>\<open>undefined >= 500\<close> is false in JavaScript, so a missing statusCode is not retryable.\<close>

definition isRetryable :: "js_error \<Rightarrow> bool" where
  "isRetryable err \<longleftrightarrow>
     (case statusCode err of None \<Rightarrow> False | Some s \<Rightarrow> s \<ge> 500) \<or> statusCode err = Some 308
     \<or> code err = Some ''ECONNRESET'' \<or> code err = Some ''ETIMEDOUT''"

text \<open>
  The \<open>for\<close> loop. \<open>att k\<close> is the outcome of the k-th call of attemptStreamUpload
  (the arguments are the same at every call; the network is what differs). An attempt
  that never settles leaves the \<open>await\<close> waiting for ever: the function never settles
  either (\<open>None\<close>) and nothing follows the attempt. The \<open>throw lastError\<close> after the
  loop is kept, with \<open>lastError\<close> undefined at first.
\<close>

function streamVideoToYouTube_loop ::
  "(nat \<Rightarrow> (js_error + upload_result) option) \<Rightarrow> nat \<Rightarrow> js_error option
     \<Rightarrow> (thrown + upload_result) option \<times> event list" where
  "streamVideoToYouTube_loop att attempt lastError =
     (if attempt \<le> maxRetries then
        (case att attempt of
           None \<Rightarrow> (None, [Attempt attempt])
         | Some (Inr res) \<Rightarrow> (Some (Inr res), [Attempt attempt])
         | Some (Inl err) \<Rightarrow>
             (if \<not> isRetryable err \<or> attempt = maxRetries
              then (Some (Inl (ErrorObj err)), [Attempt attempt])
              else (case streamVideoToYouTube_loop att (attempt + 1) (Some err) of
                      (r, evs) \<Rightarrow> (r, Attempt attempt # Delay (min (1000 * 2 ^ attempt) 10000) # evs))))
      else (Some (Inl (case lastError of None \<Rightarrow> Undefined | Some e \<Rightarrow> ErrorObj e)), []))"
  by pat_completeness auto
termination
  by (relation "measure (\<lambda>(att, attempt, lastError). maxRetries + 1 - attempt)") auto

definition streamVideoToYouTube ::
  "(nat \<Rightarrow> (js_error + upload_result) option) \<Rightarrow> (thrown + upload_result) option \<times> event list" where
  "streamVideoToYouTube att = streamVideoToYouTube_loop att 1 None"

text \<open>
  The argument object of streamVideoToYouTube, handed on to every attempt. The upload
  request is built from \<open>uploadUrl\<close>, \<open>oauthToken\<close>, \<open>contentType\<close> and
  \<open>contentLength\<close>; the download request from \<open>videoUrl\<close>.
\<close>

record transfer_args =
  t_videoUrl :: string
  t_uploadUrl :: string
  t_oauthToken :: string
  t_contentType :: string
  t_contentLength :: jsnum

section \<open>Job Orchestrator (POST /upload)\<close>

text \<open>
  The fields of a creation request that the handler reads: the authorization header and
  the JSON body. \<open>None\<close> is a field that is absent or null.
\<close>

record upload_request =
  authorization :: "string option"
  videoUrl :: "string option"
  uploadUrl :: "string option"
  oauthToken :: "string option"
  clientId :: "string option"
  clientSecret :: "string option"
  refreshToken :: "string option"
  videoMetadata :: "json option"
  contentLength :: "jsnum option"
  contentType :: "string option"
  sync :: bool

text \<open>
  The process-wide state: the job Map (an association list in insertion order, one entry
  per key), the stored refresh token and the two configured client values. The Map holds
  the job objects themselves, so an entry shows the object as last assigned.
\<close>

record server =
  jobs :: "(string \<times> job) list"
  storedRefreshToken :: "string option"
  YOUTUBE_CLIENT_ID :: "string option"
  YOUTUBE_CLIENT_SECRET :: "string option"

text \<open>
  Everything outside the process that one request meets: what getAccessTokenFromRefresh
  settles with for given client id, client secret and refresh token (its HTTPS exchange
  is not unfolded here), the source's answer to the n-th HEAD probe, the destination's
  answer to the session request, what happens during the k-th transfer attempt made with
  given arguments (the network's part, and whether Node accepts the upload request),
  \<open>JSON.parse\<close>, the clock readings and the random suffix of the job id.
\<close>

record world =
  getAccessTokenFromRefresh :: "string \<Rightarrow> string \<Rightarrow> string \<Rightarrow> js_error + string"
  head_net :: "nat \<Rightarrow> string \<Rightarrow> head_outcome"
  session_net :: session_outcome
  transfer_net :: "nat \<Rightarrow> transfer_args \<Rightarrow> get_outcome"
  JSON_parse :: "string \<Rightarrow> json option"
  now_id :: nat
  now_created :: nat
  now_completed :: nat
  random_suffix :: string

text \<open>\<open>Map.prototype.set\<close>, \<open>get\<close> and \<open>delete\<close> on the association list.\<close>

fun map_set :: "string \<Rightarrow> 'v \<Rightarrow> (string \<times> 'v) list \<Rightarrow> (string \<times> 'v) list" where
  "map_set k v [] = [(k, v)]"
| "map_set k v ((k', v') # m) = (if k' = k then (k, v) # m else (k', v') # map_set k v m)"

definition map_get :: "string \<Rightarrow> (string \<times> 'v) list \<Rightarrow> 'v option" where
  "map_get k m = map_of m k"

definition map_delete :: "string \<Rightarrow> (string \<times> 'v) list \<Rightarrow> (string \<times> 'v) list" where
  "map_delete k m = filter (\<lambda>(k', v). k' \<noteq> k) m"

text \<open>
  \<open>/^Bearer\s+/i\<close>: its test, and what \<open>replace\<close> leaves; then \<open>trim\<close>. The flag
  \<open>i\<close> lets each letter of the word match in either case.
\<close>

definition to_lower :: "char \<Rightarrow> char" where
  "to_lower c =
     (case map_of (zip ''ABCDEFGHIJKLMNOPQRSTUVWXYZ'' ''abcdefghijklmnopqrstuvwxyz'') c of
        Some l \<Rightarrow> l
      | None \<Rightarrow> c)"

definition bearer_test :: "string \<Rightarrow> bool" where
  "bearer_test h \<longleftrightarrow>
     map to_lower (take 6 h) = ''bearer'' \<and> (case drop 6 h of [] \<Rightarrow> False | c # r \<Rightarrow> js_space c)"

definition bearer_replace :: "string \<Rightarrow> string" where
  "bearer_replace h = (if bearer_test h then dropWhile js_space (drop 6 h) else h)"

definition js_trim :: "string \<Rightarrow> string" where
  "js_trim s = rev (dropWhile js_space (rev (dropWhile js_space s)))"

text \<open>
  The credential block of the handler: the access token it goes on with, or the response
  of an early return.
\<close>

definition accessToken_of :: "world \<Rightarrow> server \<Rightarrow> upload_request \<Rightarrow> (nat \<times> payload) + string" where
  "accessToken_of w srv req =
     (let accessToken = oauthToken req;
          authHeader = authorization req;
          accessToken =
            (if \<not> truthy_s accessToken \<and> truthy_s authHeader \<and> bearer_test (the authHeader)
             then Some (js_trim (bearer_replace (the authHeader))) else accessToken);
          fromBody =
            (if \<not> truthy_s accessToken \<and> truthy_s (clientId req) \<and> truthy_s (clientSecret req)
                \<and> truthy_s (refreshToken req)
             then (case getAccessTokenFromRefresh w (the (clientId req)) (the (clientSecret req))
                          (the (refreshToken req)) of
                     Inl err \<Rightarrow> Inl (400, ErrorBody ''Failed to get access token from refresh token''
                                         (Some (message err)))
                   | Inr t \<Rightarrow> Inr (Some t))
             else Inr accessToken)
      in case fromBody of
           Inl resp \<Rightarrow> Inl resp
         | Inr accessToken \<Rightarrow>
             (let fromStore =
                (if \<not> truthy_s accessToken \<and> truthy_s (storedRefreshToken srv)
                    \<and> truthy_s (YOUTUBE_CLIENT_ID srv) \<and> truthy_s (YOUTUBE_CLIENT_SECRET srv)
                 then (case getAccessTokenFromRefresh w (the (YOUTUBE_CLIENT_ID srv))
                              (the (YOUTUBE_CLIENT_SECRET srv)) (the (storedRefreshToken srv)) of
                         Inl err \<Rightarrow> Inl (401, ErrorBody
                           ''Stored token expired or invalid. Visit /auth/youtube again to reconnect.''
                           (Some (message err)))
                       | Inr t \<Rightarrow> Inr (Some t))
                 else Inr accessToken)
              in case fromStore of
                   Inl resp \<Rightarrow> Inl resp
                 | Inr accessToken \<Rightarrow>
                     (if \<not> truthy_s accessToken then Inl (400, ErrorBody ''Missing auth'' None)
                      else Inr (the accessToken))))"

text \<open>\<open>!videoMetadata || !videoMetadata.snippet\<close> is false: only an object has a snippet.\<close>

definition has_snippet :: "json option \<Rightarrow> bool" where
  "has_snippet vm =
     (case vm of
        Some (JObj kvs) \<Rightarrow> (case map_of kvs ''snippet'' of None \<Rightarrow> False | Some v \<Rightarrow> truthy v)
      | _ \<Rightarrow> False)"

text \<open>
  What the closure runUpload captures once the handler has got that far, and the number
  of probes the handler has sent by then (the world answers the n-th probe). The closure
  also captures the request's fields (the handler defines it only after it has checked
  that \<open>videoUrl\<close> is present).
\<close>

record launch =
  jobId :: string
  job0 :: job
  resolvedUploadUrl :: string
  accessToken :: string
  probes_done :: nat

text \<open>
  The handler up to the definition of runUpload: validation, credential, job creation
  and registration, and the upload URL (given, or negotiated). It yields the response of
  an early return or the captured values, with the server state and the effects so far.
\<close>

definition upload_setup ::
  "world \<Rightarrow> server \<Rightarrow> upload_request \<Rightarrow> ((nat \<times> payload) + launch) \<times> server \<times> event list" where
  "upload_setup w srv req =
     (if \<not> truthy_s (videoUrl req) then
        (Inl (400, ErrorBody ''Missing required field: videoUrl'' None), srv, [])
      else case accessToken_of w srv req of
        Inl resp \<Rightarrow> (Inl resp, srv, [])
      | Inr tok \<Rightarrow>
          (let jid = ''job_'' @ string_of_nat (now_id w) @ ''_'' @ random_suffix w;
               j = \<lparr>job_id = jid, status = Pending, createdAt = now_created w,
                    job_videoUrl = the (videoUrl req),
                    job_videoMetadata = (case videoMetadata req of
                                           None \<Rightarrow> JNull
                                         | Some v \<Rightarrow> if truthy v then v else JNull),
                    result = None, error = None, completedAt = None\<rparr>;
               srv' = srv\<lparr>jobs := map_set jid j (jobs srv)\<rparr>
           in if truthy_s (uploadUrl req) then
                (Inr \<lparr>jobId = jid, job0 = j, resolvedUploadUrl = the (uploadUrl req),
                      accessToken = tok, probes_done = 0\<rparr>, srv', [])
              else if \<not> has_snippet (videoMetadata req) then
                (Inl (400, ErrorBody ''Missing uploadUrl and videoMetadata.snippet'' None), srv', [])
              else case resolvedContentLength (head_net w 0) (contentLength req) (the (videoUrl req)) of
                (Inl e, evs) \<Rightarrow>
                  (Inl (400, ErrorBody
                     ''Could not get video size. Pass contentLength in body or ensure videoUrl returns Content-Length.''
                     (Some (message e))), srv', evs)
              | (Inr sizeForSession, evs) \<Rightarrow>
                  (case createResumableSession (session_net w) of
                     Inl err \<Rightarrow>
                       (Inl (400, ErrorBody ''Failed to create YouTube upload session''
                          (Some (message err))), srv', evs)
                   | Inr url \<Rightarrow>
                       (Inr \<lparr>jobId = jid, job0 = j, resolvedUploadUrl = url, accessToken = tok,
                             probes_done = length evs\<rparr>, srv', evs))))"

text \<open>
  The \<open>catch\<close> block of runUpload. Reading \<open>err.message\<close> of undefined throws a
  TypeError out of the block, after the two assignments before it.
\<close>

definition runUpload_catch :: "world \<Rightarrow> thrown \<Rightarrow> (thrown + unit) \<times> event list" where
  "runUpload_catch w t =
     (case t of
        ErrorObj err \<Rightarrow>
          (Inr (), [Write (SetStatus Failed), Write (SetCompletedAt (now_completed w)),
                    Write (SetError (JobError (message err) (code err))),
                    ConsoleError ''Upload failed:''])
      | Undefined \<Rightarrow>
          (Inl (ErrorObj (new_Error ''Cannot read properties of undefined (reading 'message')'')),
           [Write (SetStatus Failed), Write (SetCompletedAt (now_completed w))]))"

text \<open>
  The object that runUpload passes to streamVideoToYouTube. \<open>contentType\<close> is
  \<open>'video/webm'\<close> when the request gives none.
\<close>

definition transfer_args_of :: "upload_request \<Rightarrow> launch \<Rightarrow> jsnum \<Rightarrow> transfer_args" where
  "transfer_args_of req l resolved =
     \<lparr>t_videoUrl = the (videoUrl req), t_uploadUrl = resolvedUploadUrl l,
      t_oauthToken = accessToken l,
      t_contentType = (case contentType req of None \<Rightarrow> ''video/webm'' | Some c \<Rightarrow> c),
      t_contentLength = resolved\<rparr>"

text \<open>The k-th call of attemptStreamUpload with a given argument object.\<close>

definition transfer_attempt ::
  "world \<Rightarrow> transfer_args \<Rightarrow> nat \<Rightarrow> (js_error + upload_result) option" where
  "transfer_attempt w a k = attemptStreamUpload (JSON_parse w) (transfer_net w k a)"

text \<open>
  runUpload: how its promise settles (\<open>Some (Inl t)\<close>: it rejects with \<open>t\<close>;
  \<open>None\<close>: it never settles, the \<open>await\<close> of the transfer never returning) and its
  effects in order.
\<close>

definition runUpload ::
  "world \<Rightarrow> upload_request \<Rightarrow> launch \<Rightarrow> (thrown + unit) option \<times> event list" where
  "runUpload w req l =
     (case resolvedContentLength (head_net w (probes_done l)) (contentLength req) (the (videoUrl req)) of
        (Inl err, evs1) \<Rightarrow>
          (case runUpload_catch w (ErrorObj err) of
             (r, evs3) \<Rightarrow> (Some r, Write (SetStatus Downloading) # evs1 @ evs3))
      | (Inr resolved, evs1) \<Rightarrow>
          (case streamVideoToYouTube (transfer_attempt w (transfer_args_of req l resolved)) of
             (None, evs2) \<Rightarrow>
               (None, Write (SetStatus Downloading) # evs1 @ Write (SetStatus Uploading) # evs2)
           | (Some (Inr res), evs2) \<Rightarrow>
               (Some (Inr ()),
                Write (SetStatus Downloading) # evs1 @ Write (SetStatus Uploading) # evs2
                  @ [Write (SetStatus Completed), Write (SetCompletedAt (now_completed w)),
                     Write (SetResult res)])
           | (Some (Inl t), evs2) \<Rightarrow>
               (case runUpload_catch w t of
                  (r, evs3) \<Rightarrow>
                    (Some r, Write (SetStatus Downloading) # evs1 @ Write (SetStatus Uploading) # evs2
                       @ evs3))))"

text \<open>
  The two modes. In synchronous mode the \<open>then\<close> handler answers with the job, and
  the \<open>catch\<close> handler marks it failed first; in asynchronous mode the acknowledgment is
  sent before runUpload starts, and a rejection is only logged. While runUpload has not
  settled no handler runs, and in synchronous mode the caller gets no answer.
\<close>

definition sync_then :: "job \<Rightarrow> event list" where
  "sync_then j = [Respond (if status j = Completed then 201 else 500) (JobBody j)]"

definition sync_catch :: "job \<Rightarrow> thrown \<Rightarrow> event list" where
  "sync_catch j t =
     (case t of
        ErrorObj err \<Rightarrow>
          [Write (SetStatus Failed), Write (SetError (JobError (message err) None)),
           Respond 500 (JobBody (j\<lparr>status := Failed, error := Some (JobError (message err) None)\<rparr>))]
      | Undefined \<Rightarrow> [Write (SetStatus Failed)])"

definition async_catch :: "thrown \<Rightarrow> event list" where
  "async_catch t = [ConsoleError ''Background upload error:'']"

definition dispatch :: "world \<Rightarrow> upload_request \<Rightarrow> launch \<Rightarrow> event list" where
  "dispatch w req l =
     (case runUpload w req l of
        (out, evs) \<Rightarrow>
          (if sync req then
             evs @ (case out of
                      None \<Rightarrow> []
                    | Some (Inr u) \<Rightarrow> sync_then (job_after (job0 l) evs)
                    | Some (Inl t) \<Rightarrow> sync_catch (job_after (job0 l) evs) t)
           else
             Respond 202 (Accepted (jobId l)) # evs
               @ (case out of None \<Rightarrow> [] | Some (Inr u) \<Rightarrow> [] | Some (Inl t) \<Rightarrow> async_catch t)))"

text \<open>
  The whole handler, run until the job's work has ended or has stopped for good: the
  server state (the new entry showing the job object as the run left it) and all effects
  in order.
\<close>

definition post_upload :: "world \<Rightarrow> server \<Rightarrow> upload_request \<Rightarrow> server \<times> event list" where
  "post_upload w srv req =
     (case upload_setup w srv req of
        (Inl (st, p), srv', evs) \<Rightarrow> (srv', evs @ [Respond st p])
      | (Inr l, srv', evs) \<Rightarrow>
          (let evs' = dispatch w req l
           in (srv'\<lparr>jobs := map_set (jobId l) (job_after (job0 l) evs') (jobs srv')\<rparr>, evs @ evs')))"

text \<open>GET /job/:id answers with the registry's entry, or 404.\<close>

definition get_job :: "server \<Rightarrow> string \<Rightarrow> nat \<times> payload" where
  "get_job srv i =
     (case map_get i (jobs srv) of
        None \<Rightarrow> (404, ErrorBody ''Job not found'' None)
      | Some j \<Rightarrow> (200, JobBody j))"

section \<open>Job Registry: the periodic sweep\<close>

text \<open>
  The body of the interval callback. \<open>Array.prototype.sort\<close> is stable, as
  \<open>sort_key\<close> is; the comparator orders by the creation time alone.
\<close>

definition sweep :: "(string \<times> job) list \<Rightarrow> (string \<times> job) list" where
  "sweep js =
     (if length js > 100 then
        (let entries = sort_key (\<lambda>(i, j). createdAt j) js;
             toDelete = take (length entries - 100) entries
         in fold (\<lambda>(i, j) m. map_delete i m) toDelete js)
      else js)"

section \<open>Fixtures: concrete inputs for the examples below\<close>

text \<open>
  Two response bodies, \<open>{"id":0}\<close> and \<open>{"id":"abc"}\<close>, a \<open>JSON.parse\<close> that reads
  these two and throws on anything else, and a destination that answers 503 twice and
  then 200.
\<close>

definition body_id_zero :: string where
  "body_id_zero = ''{'' @ [CHR 0x22] @ ''id'' @ [CHR 0x22] @ '':0}''"

definition body_id_abc :: string where
  "body_id_abc =
     ''{'' @ [CHR 0x22] @ ''id'' @ [CHR 0x22] @ '':'' @ [CHR 0x22] @ ''abc'' @ [CHR 0x22] @ ''}''"

definition parse_fixture :: "string \<Rightarrow> json option" where
  "parse_fixture s =
     (if s = body_id_zero then Some (JObj [(''id'', JNum 0)])
      else if s = body_id_abc then Some (JObj [(''id'', JStr ''abc'')])
      else None)"

definition net_503_503_ok :: "nat \<Rightarrow> get_outcome" where
  "net_503_503_ok k = GetResponse 200 (if k < 3 then PutEnd 503 ''busy'' else PutEnd 200 body_id_abc)"

text \<open>
  A world in which the source reports 1000 bytes, the session request succeeds and the
  destination is the one above; an empty server; a request that brings its own upload
  URL, token and length; and what runUpload captures for it.
\<close>

definition world_fixture :: world where
  "world_fixture =
     \<lparr>getAccessTokenFromRefresh = (\<lambda>a b c. Inl (new_Error ''invalid_grant'')),
      head_net = (\<lambda>n url. HeadResponse 200 [(''content-length'', ''1000'')]),
      session_net = SessionResponse 200 (Some ''https://dst.example/session/1'') [],
      transfer_net = (\<lambda>k a. net_503_503_ok k),
      JSON_parse = parse_fixture,
      now_id = 1700000000000, now_created = 1700000000000, now_completed = 1700000009000,
      random_suffix = ''k3x9q2a''\<rparr>"

definition server_fixture :: server where
  "server_fixture =
     \<lparr>jobs = [], storedRefreshToken = None, YOUTUBE_CLIENT_ID = None,
      YOUTUBE_CLIENT_SECRET = None\<rparr>"

definition request_fixture :: upload_request where
  "request_fixture =
     \<lparr>authorization = None, videoUrl = Some ''http://src.example/v.webm'',
      uploadUrl = Some ''https://dst.example/session/0'', oauthToken = Some ''body-token'',
      clientId = None, clientSecret = None, refreshToken = None, videoMetadata = None,
      contentLength = Some (Num 1000), contentType = None, sync = False\<rparr>"

definition job_fixture :: job where
  "job_fixture =
     \<lparr>job_id = ''job_1700000000000_k3x9q2a'', status = Pending, createdAt = 1700000000000,
      job_videoUrl = ''http://src.example/v.webm'', job_videoMetadata = JNull,
      result = None, error = None, completedAt = None\<rparr>"

definition launch_fixture :: launch where
  "launch_fixture =
     \<lparr>jobId = ''job_1700000000000_k3x9q2a'', job0 = job_fixture,
      resolvedUploadUrl = ''https://dst.example/session/0'', accessToken = ''body-token'',
      probes_done = 0\<rparr>"

text \<open>
  A source that redirects: the video URL answers 302 with a \<open>location\<close> and no
  length, and the location answers 200 with 1000 bytes.
\<close>

definition net_redirect :: "string \<Rightarrow> head_outcome" where
  "net_redirect url =
     (if url = ''http://src.example/v.webm''
      then HeadResponse 302 [(''location'', ''http://cdn.example/v.webm'')]
      else if url = ''http://cdn.example/v.webm''
      then HeadResponse 200 [(''content-length'', ''1000'')]
      else HeadError (new_Error ''getaddrinfo ENOTFOUND''))"

text \<open>
  A request that leaves the session to the handler: no upload URL, metadata with a
  snippet, no length. And two worlds for it: one whose source reports no length, one
  whose destination refuses the session.
\<close>

definition request_negotiate :: upload_request where
  "request_negotiate =
     request_fixture\<lparr>uploadUrl := None, contentLength := None,
       videoMetadata := Some (JObj [(''snippet'', JObj [(''title'', JStr ''t'')])])\<rparr>"

definition world_no_length :: world where
  "world_no_length = world_fixture\<lparr>head_net := (\<lambda>n url. HeadResponse 200 [])\<rparr>"

definition world_no_session :: world where
  "world_no_session = world_fixture\<lparr>session_net := SessionResponse 401 None ''denied''\<rparr>"

text \<open>A request that carries a bearer header and a body token at once.\<close>

definition request_two_tokens :: upload_request where
  "request_two_tokens = request_fixture\<lparr>authorization := Some ''Bearer header-token''\<rparr>"

text \<open>
  A source that stays silent until the 60 s timer fires, at every attempt; and a source
  whose connection Node reports as timed out (ETIMEDOUT), at every attempt.
\<close>

definition world_download_timeout :: world where
  "world_download_timeout = world_fixture\<lparr>transfer_net := (\<lambda>k a. GetTimeout)\<rparr>"

definition world_connect_timeout :: world where
  "world_connect_timeout =
     world_fixture\<lparr>transfer_net :=
       (\<lambda>k a. GetError ((new_Error ''connect ETIMEDOUT'')\<lparr>code := Some ''ETIMEDOUT''\<rparr>))\<rparr>"

text \<open>
  A request whose upload URL is not a URL, what runUpload captures for it, and a world
  in which source and destination answer 200 at once, Node refusing to build the upload
  request for that URL and for no other.
\<close>

definition request_bad_upload_url :: upload_request where
  "request_bad_upload_url = request_fixture\<lparr>uploadUrl := Some ''not a url''\<rparr>"

definition launch_bad_upload_url :: launch where
  "launch_bad_upload_url = launch_fixture\<lparr>resolvedUploadUrl := ''not a url''\<rparr>"

definition world_checks_url :: world where
  "world_checks_url =
     world_fixture\<lparr>transfer_net :=
       (\<lambda>k a. GetResponse 200
                (if t_uploadUrl a = ''not a url'' then PutThrows else PutEnd 200 body_id_abc))\<rparr>"

text \<open>
  A registry of 101 jobs, created one millisecond apart and registered in that order.
\<close>

definition registry_fixture :: "(string \<times> job) list" where
  "registry_fixture =
     map (\<lambda>n. (''job_'' @ replicate n CHR ''x'',
               job_fixture\<lparr>job_id := ''job_'' @ replicate n CHR ''x'', createdAt := n\<rparr>))
       [0..<101]"

section \<open>Properties of the Retry Controller\<close>

declare streamVideoToYouTube_loop.simps [simp del]

lemma loop_at_3:
  "streamVideoToYouTube_loop att 3 le =
     (case att 3 of
        None \<Rightarrow> (None, [Attempt 3])
      | Some (Inr r) \<Rightarrow> (Some (Inr r), [Attempt 3])
      | Some (Inl e) \<Rightarrow> (Some (Inl (ErrorObj e)), [Attempt 3]))"
  by (subst streamVideoToYouTube_loop.simps)
     (simp add: maxRetries_def split: option.splits sum.splits)

lemma loop_at_2:
  "streamVideoToYouTube_loop att 2 le =
     (case att 2 of
        None \<Rightarrow> (None, [Attempt 2])
      | Some (Inr r) \<Rightarrow> (Some (Inr r), [Attempt 2])
      | Some (Inl e) \<Rightarrow>
          if isRetryable e
          then (fst (streamVideoToYouTube_loop att 3 (Some e)),
                Attempt 2 # Delay 4000 # snd (streamVideoToYouTube_loop att 3 (Some e)))
          else (Some (Inl (ErrorObj e)), [Attempt 2]))"
  by (subst streamVideoToYouTube_loop.simps)
     (simp add: maxRetries_def split: option.splits sum.splits prod.splits)

lemma loop_at_1:
  "streamVideoToYouTube_loop att 1 le =
     (case att 1 of
        None \<Rightarrow> (None, [Attempt 1])
      | Some (Inr r) \<Rightarrow> (Some (Inr r), [Attempt 1])
      | Some (Inl e) \<Rightarrow>
          if isRetryable e
          then (fst (streamVideoToYouTube_loop att 2 (Some e)),
                Attempt 1 # Delay 2000 # snd (streamVideoToYouTube_loop att 2 (Some e)))
          else (Some (Inl (ErrorObj e)), [Attempt 1]))"
  by (subst streamVideoToYouTube_loop.simps)
     (simp add: maxRetries_def del: One_nat_def split: option.splits sum.splits prod.splits)

text \<open>The three turns of the loop, written out.\<close>

lemma streamVideoToYouTube_cases:
  "streamVideoToYouTube att =
     (case att 1 of
        None \<Rightarrow> (None, [Attempt 1])
      | Some (Inr r) \<Rightarrow> (Some (Inr r), [Attempt 1])
      | Some (Inl e1) \<Rightarrow>
          if \<not> isRetryable e1 then (Some (Inl (ErrorObj e1)), [Attempt 1])
          else (case att 2 of
                  None \<Rightarrow> (None, [Attempt 1, Delay 2000, Attempt 2])
                | Some (Inr r) \<Rightarrow> (Some (Inr r), [Attempt 1, Delay 2000, Attempt 2])
                | Some (Inl e2) \<Rightarrow>
                    if \<not> isRetryable e2
                    then (Some (Inl (ErrorObj e2)), [Attempt 1, Delay 2000, Attempt 2])
                    else (case att 3 of
                            None \<Rightarrow> (None, [Attempt 1, Delay 2000, Attempt 2, Delay 4000, Attempt 3])
                          | Some (Inr r) \<Rightarrow>
                              (Some (Inr r), [Attempt 1, Delay 2000, Attempt 2, Delay 4000, Attempt 3])
                          | Some (Inl e3) \<Rightarrow>
                              (Some (Inl (ErrorObj e3)),
                               [Attempt 1, Delay 2000, Attempt 2, Delay 4000, Attempt 3]))))"
  unfolding streamVideoToYouTube_def
  by (simp add: loop_at_1 loop_at_2 loop_at_3 del: One_nat_def split: option.splits sum.splits)

text \<open>The classification of the loop, spelled out.\<close>

lemma isRetryable_iff:
  "isRetryable e \<longleftrightarrow>
     (\<exists>s. statusCode e = Some s \<and> 500 \<le> s) \<or> statusCode e = Some 308
     \<or> code e = Some ''ECONNRESET'' \<or> code e = Some ''ETIMEDOUT''"
  by (simp add: isRetryable_def split: option.splits)

text \<open>
  What the loop does for every sequence of attempt outcomes. The first attempt is always
  made. Attempt k + 1 is made exactly when attempt k was made, rejected with an error
  whose statusCode is at least 500 or is 308, or whose code is ECONNRESET or ETIMEDOUT,
  and k is below 3. An attempt that rejects with any other error, or the third one
  rejecting, ends the run at once with that very error and nothing after the attempt, in
  particular no timer; an attempt that resolves ends it with its result; an attempt that
  never settles is the last thing that happens.
\<close>

lemma retry_rule:
  "Attempt 1 \<in> set (snd (streamVideoToYouTube att))
   \<and> (\<forall>k. 1 \<le> k \<longrightarrow>
          (Attempt (Suc k) \<in> set (snd (streamVideoToYouTube att)) \<longleftrightarrow>
             Attempt k \<in> set (snd (streamVideoToYouTube att)) \<and> k < 3
             \<and> (\<exists>e. att k = Some (Inl e)
                    \<and> ((\<exists>s. statusCode e = Some s \<and> 500 \<le> s) \<or> statusCode e = Some 308
                        \<or> code e = Some ''ECONNRESET'' \<or> code e = Some ''ETIMEDOUT''))))
   \<and> (\<forall>k e. Attempt k \<in> set (snd (streamVideoToYouTube att)) \<and> att k = Some (Inl e)
              \<and> (\<not> ((\<exists>s. statusCode e = Some s \<and> 500 \<le> s) \<or> statusCode e = Some 308
                      \<or> code e = Some ''ECONNRESET'' \<or> code e = Some ''ETIMEDOUT'')
                  \<or> k = 3) \<longrightarrow>
            fst (streamVideoToYouTube att) = Some (Inl (ErrorObj e))
            \<and> last (snd (streamVideoToYouTube att)) = Attempt k)
   \<and> (\<forall>k r. Attempt k \<in> set (snd (streamVideoToYouTube att)) \<and> att k = Some (Inr r) \<longrightarrow>
            fst (streamVideoToYouTube att) = Some (Inr r)
            \<and> last (snd (streamVideoToYouTube att)) = Attempt k)
   \<and> (\<forall>k. Attempt k \<in> set (snd (streamVideoToYouTube att)) \<and> att k = None \<longrightarrow>
            fst (streamVideoToYouTube att) = None
            \<and> last (snd (streamVideoToYouTube att)) = Attempt k)"
  unfolding isRetryable_iff [symmetric]
proof (intro conjI allI impI)
  show "Attempt 1 \<in> set (snd (streamVideoToYouTube att))"
    by (simp add: streamVideoToYouTube_cases split: option.splits sum.splits)
next
  fix k :: nat assume k: "1 \<le> k"
  consider "k = 1" | "k = 2" | "k \<ge> 3" using k by arith
  then show "Attempt (Suc k) \<in> set (snd (streamVideoToYouTube att)) \<longleftrightarrow>
             Attempt k \<in> set (snd (streamVideoToYouTube att)) \<and> k < 3
             \<and> (\<exists>e. att k = Some (Inl e) \<and> isRetryable e)"
  proof cases
    case 1
    then show ?thesis
      by (auto simp: streamVideoToYouTube_cases split: option.splits sum.splits)
  next
    case 2
    then show ?thesis
      by (auto simp: streamVideoToYouTube_cases split: option.splits sum.splits)
  next
    case 3
    then show ?thesis
      by (auto simp: streamVideoToYouTube_cases split: option.splits sum.splits)
  qed
next
  fix k e
  assume a: "Attempt k \<in> set (snd (streamVideoToYouTube att)) \<and> att k = Some (Inl e)
              \<and> (\<not> isRetryable e \<or> k = 3)"
  then have k: "k = 1 \<or> k = 2 \<or> k = 3"
    by (auto simp: streamVideoToYouTube_cases split: option.splits sum.splits if_splits)
  with a show "fst (streamVideoToYouTube att) = Some (Inl (ErrorObj e))"
    by (auto simp: streamVideoToYouTube_cases split: option.splits sum.splits if_splits)
  from a k show "last (snd (streamVideoToYouTube att)) = Attempt k"
    by (auto simp: streamVideoToYouTube_cases split: option.splits sum.splits if_splits)
next
  fix k r
  assume a: "Attempt k \<in> set (snd (streamVideoToYouTube att)) \<and> att k = Some (Inr r)"
  then have k: "k = 1 \<or> k = 2 \<or> k = 3"
    by (auto simp: streamVideoToYouTube_cases split: option.splits sum.splits if_splits)
  with a show "fst (streamVideoToYouTube att) = Some (Inr r)"
    by (auto simp: streamVideoToYouTube_cases split: option.splits sum.splits if_splits)
  from a k show "last (snd (streamVideoToYouTube att)) = Attempt k"
    by (auto simp: streamVideoToYouTube_cases split: option.splits sum.splits if_splits)
next
  fix k
  assume a: "Attempt k \<in> set (snd (streamVideoToYouTube att)) \<and> att k = None"
  then have k: "k = 1 \<or> k = 2 \<or> k = 3"
    by (auto simp: streamVideoToYouTube_cases split: option.splits sum.splits if_splits)
  with a show "fst (streamVideoToYouTube att) = None"
    by (auto simp: streamVideoToYouTube_cases split: option.splits sum.splits if_splits)
  from a k show "last (snd (streamVideoToYouTube att)) = Attempt k"
    by (auto simp: streamVideoToYouTube_cases split: option.splits sum.splits if_splits)
qed

section \<open>Effects of a run, in closed form\<close>

lemma job_after_append: "job_after j (xs @ ys) = job_after (job_after j xs) ys"
  by (induction j xs rule: job_after.induct) simp_all

lemma probes_simps [simp]:
  "probes [] = []"
  "probes (Probe u # es) = u # probes es"
  "probes (Write x # es) = probes es"
  "probes (Attempt k # es) = probes es"
  "probes (Delay d # es) = probes es"
  "probes (ConsoleError s # es) = probes es"
  "probes (Respond c p # es) = probes es"
  "probes (xs @ ys) = probes xs @ probes ys"
  by (simp_all add: probes_def)

lemma attempts_simps [simp]:
  "attempts [] = []"
  "attempts (Attempt k # es) = k # attempts es"
  "attempts (Write x # es) = attempts es"
  "attempts (Probe u # es) = attempts es"
  "attempts (Delay d # es) = attempts es"
  "attempts (ConsoleError s # es) = attempts es"
  "attempts (Respond c p # es) = attempts es"
  "attempts (xs @ ys) = attempts xs @ attempts ys"
  by (simp_all add: attempts_def)

lemma delays_simps [simp]:
  "delays [] = []"
  "delays (Delay d # es) = d # delays es"
  "delays (Write x # es) = delays es"
  "delays (Probe u # es) = delays es"
  "delays (Attempt k # es) = delays es"
  "delays (ConsoleError s # es) = delays es"
  "delays (Respond c p # es) = delays es"
  "delays (xs @ ys) = delays xs @ delays ys"
  by (simp_all add: delays_def)

lemma resolvedContentLength_events:
  "snd (resolvedContentLength net cl url) = [] \<or> snd (resolvedContentLength net cl url) = [Probe url]"
  by (simp add: resolvedContentLength_def split: option.splits)

lemma events_of_stream:
  "snd (streamVideoToYouTube att) \<in>
     {[Attempt 1], [Attempt 1, Delay 2000, Attempt 2],
      [Attempt 1, Delay 2000, Attempt 2, Delay 4000, Attempt 3]}"
  by (simp add: streamVideoToYouTube_cases split: option.splits sum.splits)

lemma probes_of_stream [simp]: "probes (snd (streamVideoToYouTube att)) = []"
  using events_of_stream [of att] by auto

lemma events_of_catch:
  "snd (runUpload_catch w t) =
     (case t of
        ErrorObj err \<Rightarrow>
          [Write (SetStatus Failed), Write (SetCompletedAt (now_completed w)),
           Write (SetError (JobError (message err) (code err))), ConsoleError ''Upload failed:'']
      | Undefined \<Rightarrow> [Write (SetStatus Failed), Write (SetCompletedAt (now_completed w))])"
  by (simp add: runUpload_catch_def split: thrown.splits)

lemma probes_of_catch [simp]: "probes (snd (runUpload_catch w t)) = []"
  by (simp add: events_of_catch split: thrown.splits)

lemma attempts_of_catch [simp]: "attempts (snd (runUpload_catch w t)) = []"
  by (simp add: events_of_catch split: thrown.splits)

lemma events_of_runUpload:
  "snd (runUpload w req l) =
     Write (SetStatus Downloading)
     # snd (resolvedContentLength (head_net w (probes_done l)) (contentLength req) (the (videoUrl req)))
     @ (case fst (resolvedContentLength (head_net w (probes_done l)) (contentLength req)
                    (the (videoUrl req))) of
          Inl err \<Rightarrow> snd (runUpload_catch w (ErrorObj err))
        | Inr n \<Rightarrow>
            Write (SetStatus Uploading)
            # snd (streamVideoToYouTube (transfer_attempt w (transfer_args_of req l n)))
            @ (case fst (streamVideoToYouTube (transfer_attempt w (transfer_args_of req l n))) of
                 None \<Rightarrow> []
               | Some (Inr res) \<Rightarrow>
                   [Write (SetStatus Completed), Write (SetCompletedAt (now_completed w)),
                    Write (SetResult res)]
               | Some (Inl t) \<Rightarrow> snd (runUpload_catch w t)))"
proof -
  obtain r1 evs1 where a: "resolvedContentLength (head_net w (probes_done l)) (contentLength req)
      (the (videoUrl req)) = (r1, evs1)"
    by (cases "resolvedContentLength (head_net w (probes_done l)) (contentLength req)
      (the (videoUrl req))")
  show ?thesis
  proof (cases r1)
    case (Inl err)
    then show ?thesis by (simp add: runUpload_def a split: prod.splits)
  next
    case (Inr n)
    obtain r2 evs2 where b:
      "streamVideoToYouTube (transfer_attempt w (transfer_args_of req l n)) = (r2, evs2)"
      by (cases "streamVideoToYouTube (transfer_attempt w (transfer_args_of req l n))")
    show ?thesis
      by (cases r2) (auto simp: runUpload_def a b Inr split: prod.splits sum.splits)
  qed
qed

lemma outcome_of_runUpload:
  "fst (runUpload w req l) =
     (case fst (resolvedContentLength (head_net w (probes_done l)) (contentLength req)
                    (the (videoUrl req))) of
          Inl err \<Rightarrow> Some (fst (runUpload_catch w (ErrorObj err)))
        | Inr n \<Rightarrow>
            (case fst (streamVideoToYouTube (transfer_attempt w (transfer_args_of req l n))) of
                 None \<Rightarrow> None
               | Some (Inr res) \<Rightarrow> Some (Inr ())
               | Some (Inl t) \<Rightarrow> Some (fst (runUpload_catch w t))))"
proof -
  obtain r1 evs1 where a: "resolvedContentLength (head_net w (probes_done l)) (contentLength req)
      (the (videoUrl req)) = (r1, evs1)"
    by (cases "resolvedContentLength (head_net w (probes_done l)) (contentLength req)
      (the (videoUrl req))")
  show ?thesis
  proof (cases r1)
    case (Inl err)
    then show ?thesis by (simp add: runUpload_def a split: prod.splits)
  next
    case (Inr n)
    obtain r2 evs2 where b:
      "streamVideoToYouTube (transfer_attempt w (transfer_args_of req l n)) = (r2, evs2)"
      by (cases "streamVideoToYouTube (transfer_attempt w (transfer_args_of req l n))")
    show ?thesis
      by (cases r2) (auto simp: runUpload_def a b Inr split: prod.splits sum.splits)
  qed
qed

lemma events_of_dispatch:
  "dispatch w req l =
     (if sync req then
        snd (runUpload w req l)
        @ (case fst (runUpload w req l) of
             None \<Rightarrow> []
           | Some (Inr u) \<Rightarrow> sync_then (job_after (job0 l) (snd (runUpload w req l)))
           | Some (Inl t) \<Rightarrow> sync_catch (job_after (job0 l) (snd (runUpload w req l))) t)
      else Respond 202 (Accepted (jobId l)) # snd (runUpload w req l)
        @ (case fst (runUpload w req l) of
             None \<Rightarrow> [] | Some (Inr u) \<Rightarrow> [] | Some (Inl t) \<Rightarrow> async_catch t))"
  by (cases "runUpload w req l") (auto simp: dispatch_def split: option.splits sum.splits)

lemma events_of_post_upload:
  "snd (post_upload w srv req) =
     snd (snd (upload_setup w srv req))
     @ (case fst (upload_setup w srv req) of
          Inl r \<Rightarrow> [Respond (fst r) (snd r)]
        | Inr l \<Rightarrow> dispatch w req l)"
  by (cases "upload_setup w srv req") (auto simp: post_upload_def Let_def split: sum.splits)

lemma events_of_setup:
  "snd (snd (upload_setup w srv req)) = []
   \<or> (contentLength req = None
       \<and> snd (snd (upload_setup w srv req)) = [Probe (the (videoUrl req))])"
  by (auto simp: upload_setup_def Let_def resolvedContentLength_def
      split: sum.splits prod.splits option.splits)

lemma probes_of_runUpload:
  "contentLength req = Some n \<Longrightarrow> probes (snd (runUpload w req l)) = []"
  by (simp add: events_of_runUpload resolvedContentLength_def split: option.splits sum.splits)

lemma probes_of_dispatch:
  "contentLength req = Some n \<Longrightarrow> probes (dispatch w req l) = []"
  by (simp add: events_of_dispatch probes_of_runUpload sync_then_def sync_catch_def async_catch_def
      split: option.splits sum.splits thrown.splits)

lemma probes_of_post_upload:
  "contentLength req = Some n \<Longrightarrow> probes (snd (post_upload w srv req)) = []"
  using events_of_setup [of w srv req]
  by (auto simp: events_of_post_upload probes_of_dispatch split: sum.splits)

section \<open>Properties of the retried transfer\<close>

lemma runUpload_success:
  assumes "resolvedContentLength (head_net w (probes_done l)) (contentLength req) (the (videoUrl req)) = (Inr n, evs1)"
    and "streamVideoToYouTube (transfer_attempt w (transfer_args_of req l n)) = (Some (Inr res), evs2)"
  shows "runUpload w req l =
     (Some (Inr ()), Write (SetStatus Downloading) # evs1 @ Write (SetStatus Uploading) # evs2
                  @ [Write (SetStatus Completed), Write (SetCompletedAt (now_completed w)),
                     Write (SetResult res)])"
  using assms by (simp add: runUpload_def)

text \<open>
  Claim C1 lists a connection timeout among the failures that are retried. The code
  retries a timeout that Node reports with the code ETIMEDOUT, but not the one it raises
  itself: when the source stays silent for 60 s the attempt rejects with an error that
  has neither a code nor a status, the loop takes it as fatal, and the job fails after
  one attempt and no timer. With a connection reported as ETIMEDOUT at every attempt the
  same job makes three attempts, with the timers 2000 and 4000 between them.
\<close>

theorem own_timeout_not_retried:
  "attemptStreamUpload parse_fixture GetTimeout = Some (Inl (new_Error ''Download timeout''))
   \<and> runUpload world_download_timeout request_fixture launch_fixture =
       (Some (Inr ()),
        [Write (SetStatus Downloading), Write (SetStatus Uploading), Attempt 1,
         Write (SetStatus Failed), Write (SetCompletedAt 1700000009000),
         Write (SetError (JobError ''Download timeout'' None)), ConsoleError ''Upload failed:''])
   \<and> attempts (snd (runUpload world_connect_timeout request_fixture launch_fixture)) = [1, 2, 3]
   \<and> delays (snd (runUpload world_connect_timeout request_fixture launch_fixture)) = [2000, 4000]"
  by (simp add: runUpload_def resolvedContentLength_def request_fixture_def
      world_download_timeout_def world_connect_timeout_def world_fixture_def transfer_attempt_def
      streamVideoToYouTube_cases isRetryable_def new_Error_def runUpload_catch_def)

text \<open>
  Claim C3. Whenever attempt k fails with a retryable error and k is below the three
  attempts allowed, the run goes on with a timer of min(1000 * 2^k, 10000) milliseconds
  and then attempt k + 1. With a destination that answers 503, 503 and then succeeds,
  the third attempt's result is returned after the attempts 1, 2, 3 and the two timers
  2000 and 4000 (the second longer than the first, both below 10000), and the job that
  runUpload drives ends in status completed.
\<close>

theorem backoff_delay:
  "(\<forall>k e. Attempt k \<in> set (snd (streamVideoToYouTube att)) \<and> att k = Some (Inl e) \<and> isRetryable e
            \<and> k < maxRetries \<longrightarrow>
          (\<exists>xs ys. snd (streamVideoToYouTube att) =
                     xs @ [Attempt k, Delay (min (1000 * 2 ^ k) 10000), Attempt (Suc k)] @ ys))
   \<and> (\<forall>e1 e2 r. att 1 = Some (Inl e1) \<and> statusCode e1 = Some 503 \<and> att 2 = Some (Inl e2)
                 \<and> statusCode e2 = Some 503 \<and> att 3 = Some (Inr r) \<longrightarrow>
          fst (streamVideoToYouTube att) = Some (Inr r)
          \<and> attempts (snd (streamVideoToYouTube att)) = [1, 2, 3]
          \<and> delays (snd (streamVideoToYouTube att)) = [2000, 4000])
   \<and> (\<forall>w req l n s1 s2 s3 b1 b2 b3.
         fst (resolvedContentLength (head_net w (probes_done l)) (contentLength req)
                (the (videoUrl req))) = Inr n
         \<and> s1 < 400 \<and> s2 < 400 \<and> s3 < 400
         \<and> transfer_net w 1 (transfer_args_of req l n) = GetResponse s1 (PutEnd 503 b1)
         \<and> transfer_net w 2 (transfer_args_of req l n) = GetResponse s2 (PutEnd 503 b2)
         \<and> transfer_net w 3 (transfer_args_of req l n) = GetResponse s3 (PutEnd 200 b3) \<longrightarrow>
           status (job_after (job0 l) (snd (runUpload w req l))) = Completed
           \<and> attempts (snd (runUpload w req l)) = [1, 2, 3]
           \<and> delays (snd (runUpload w req l)) = [2000, 4000])"
proof (intro conjI allI impI)
  fix k e
  assume a: "Attempt k \<in> set (snd (streamVideoToYouTube att)) \<and> att k = Some (Inl e) \<and> isRetryable e
            \<and> k < maxRetries"
  then have k: "k = 1 \<or> k = 2"
    by (auto simp: streamVideoToYouTube_cases maxRetries_def split: option.splits sum.splits if_splits)
  show "\<exists>xs ys. snd (streamVideoToYouTube att) =
                     xs @ [Attempt k, Delay (min (1000 * 2 ^ k) 10000), Attempt (Suc k)] @ ys"
  proof (cases "k = 1")
    case True
    with a have "\<exists>ys. snd (streamVideoToYouTube att) =
                     [] @ [Attempt k, Delay (min (1000 * 2 ^ k) 10000), Attempt (Suc k)] @ ys"
      by (auto simp: streamVideoToYouTube_cases split: option.splits sum.splits)
    then show ?thesis by blast
  next
    case False
    with k have k2: "k = 2" by simp
    with a have "\<exists>ys. snd (streamVideoToYouTube att) =
                     [Attempt 1, Delay 2000] @ [Attempt k, Delay (min (1000 * 2 ^ k) 10000), Attempt (Suc k)] @ ys"
      by (auto simp: streamVideoToYouTube_cases split: option.splits sum.splits)
    then show ?thesis by blast
  qed
next
  fix e1 e2 r
  assume a: "att 1 = Some (Inl e1) \<and> statusCode e1 = Some 503 \<and> att 2 = Some (Inl e2)
                 \<and> statusCode e2 = Some 503 \<and> att 3 = Some (Inr r)"
  then have s: "streamVideoToYouTube att =
      (Some (Inr r), [Attempt 1, Delay 2000, Attempt 2, Delay 4000, Attempt 3])"
    by (simp add: streamVideoToYouTube_cases isRetryable_def)
  show "fst (streamVideoToYouTube att) = Some (Inr r)" by (simp add: s)
  show "attempts (snd (streamVideoToYouTube att)) = [1, 2, 3]" by (simp add: s)
  show "delays (snd (streamVideoToYouTube att)) = [2000, 4000]" by (simp add: s)
next
  fix w :: world and req :: upload_request and l :: launch and n s1 s2 s3 b1 b2 b3
  assume a: "fst (resolvedContentLength (head_net w (probes_done l)) (contentLength req)
                (the (videoUrl req))) = Inr n
         \<and> s1 < 400 \<and> s2 < 400 \<and> s3 < 400
         \<and> transfer_net w 1 (transfer_args_of req l n) = GetResponse s1 (PutEnd 503 b1)
         \<and> transfer_net w 2 (transfer_args_of req l n) = GetResponse s2 (PutEnd 503 b2)
         \<and> transfer_net w 3 (transfer_args_of req l n) = GetResponse s3 (PutEnd 200 b3)"
  define evs1 where "evs1 = snd (resolvedContentLength (head_net w (probes_done l)) (contentLength req)
                (the (videoUrl req)))"
  have r1: "resolvedContentLength (head_net w (probes_done l)) (contentLength req)
                (the (videoUrl req)) = (Inr n, evs1)"
    using a by (simp add: evs1_def prod_eq_iff)
  have e1: "evs1 = [] \<or> evs1 = [Probe (the (videoUrl req))]"
    unfolding evs1_def by (rule resolvedContentLength_events)
  obtain res where s: "streamVideoToYouTube (transfer_attempt w (transfer_args_of req l n))
          = (Some (Inr res), [Attempt 1, Delay 2000, Attempt 2, Delay 4000, Attempt 3])"
    using a by (simp add: streamVideoToYouTube_cases isRetryable_def on_put_end_def
        transfer_attempt_def)
  note ru = runUpload_success [OF r1 s]
  show "status (job_after (job0 l) (snd (runUpload w req l))) = Completed"
    using e1 by (auto simp: ru job_after_append)
  show "attempts (snd (runUpload w req l)) = [1, 2, 3]"
    using e1 by (auto simp: ru)
  show "delays (snd (runUpload w req l)) = [2000, 4000]"
    using e1 by (auto simp: ru)
qed

theorem backoff_delay_witness:
  "fst (streamVideoToYouTube (\<lambda>k. attemptStreamUpload parse_fixture (net_503_503_ok k)))
     = Some (Inr \<lparr>res_statusCode = 200, videoId = JStr ''abc'', rawResponse = Some body_id_abc\<rparr>)
   \<and> delays (snd (streamVideoToYouTube (\<lambda>k. attemptStreamUpload parse_fixture (net_503_503_ok k))))
       = [2000, 4000]
   \<and> status (job_after (job0 launch_fixture)
         (snd (runUpload world_fixture request_fixture launch_fixture))) = Completed
   \<and> attempts (snd (runUpload world_fixture request_fixture launch_fixture)) = [1, 2, 3]
   \<and> delays (snd (runUpload world_fixture request_fixture launch_fixture)) = [2000, 4000]
   \<and> (2000 :: nat) < 4000 \<and> (4000 :: nat) \<le> 10000"
proof -
  let ?att = "\<lambda>k. attemptStreamUpload parse_fixture (net_503_503_ok k)"
  let ?e = "(new_Error ''YouTube upload failed: HTTP 503 - busy'')
              \<lparr>statusCode := Some 503, body := Some ''busy''\<rparr>"
  let ?r = "\<lparr>res_statusCode = 200, videoId = JStr ''abc'', rawResponse = Some body_id_abc\<rparr>"
  have h: "?att 1 = Some (Inl ?e) \<and> statusCode ?e = Some 503 \<and> ?att 2 = Some (Inl ?e)
           \<and> statusCode ?e = Some 503 \<and> ?att 3 = Some (Inr ?r)"
    by (simp add: net_503_503_ok_def on_put_end_def string_of_nat.simps parse_fixture_def
        body_id_abc_def body_id_zero_def)
  note a = backoff_delay [of ?att, THEN conjunct2, THEN conjunct1, rule_format, of ?e ?e ?r, OF h]
  note b = backoff_delay [of ?att, THEN conjunct2, THEN conjunct2, rule_format,
      of world_fixture launch_fixture request_fixture "Num 1000" 200 200 200 "''busy''" "''busy''"
         body_id_abc]
  have c: "status (job_after (job0 launch_fixture)
         (snd (runUpload world_fixture request_fixture launch_fixture))) = Completed
   \<and> attempts (snd (runUpload world_fixture request_fixture launch_fixture)) = [1, 2, 3]
   \<and> delays (snd (runUpload world_fixture request_fixture launch_fixture)) = [2000, 4000]"
    using b
    by (simp add: world_fixture_def request_fixture_def launch_fixture_def net_503_503_ok_def
        resolvedContentLength_def)
  from a c show ?thesis by simp
qed

section \<open>Properties of the Relay Engine\<close>

text \<open>
  Claim C5, as amended. For one attempt: a destination response with status 200 or 201
  resolves, whatever the body is; its identifier is the \<open>id\<close> field of the parsed body
  when the body parses to an object that has one and the field is truthy (not 0, the
  empty string, false or null), and null in every other case. A 308 rejects with an
  error that the Retry Controller takes as retryable. Every other status (so every
  status outside 2xx, and the rest of 2xx as well) rejects with an error carrying that
  status and the body. These are the attempt's outcome when the source answered below
  400; a source status of 400 or more rejects the attempt.
\<close>

theorem attempt_resolution:
  "(st = 200 \<or> st = 201 \<longrightarrow>
      (\<exists>r. on_put_end parse st b = Inr r \<and> res_statusCode r = st
          \<and> videoId r = (case parse b of
                           Some (JObj kvs) \<Rightarrow>
                             (case map_of kvs ''id'' of
                                Some v \<Rightarrow> if truthy v then v else JNull
                              | None \<Rightarrow> JNull)
                         | _ \<Rightarrow> JNull)))
   \<and> (\<exists>e. on_put_end parse 308 b = Inl e \<and> statusCode e = Some 308 \<and> isRetryable e)
   \<and> (st \<noteq> 200 \<and> st \<noteq> 201 \<and> st \<noteq> 308 \<longrightarrow>
        (\<exists>e. on_put_end parse st b = Inl e \<and> statusCode e = Some st \<and> body e = Some b))
   \<and> (src < 400 \<longrightarrow>
        attemptStreamUpload parse (GetResponse src (PutEnd st b)) = Some (on_put_end parse st b))
   \<and> (src \<ge> 400 \<longrightarrow> (\<exists>e. attemptStreamUpload parse (GetResponse src put) = Some (Inl e)))"
proof (intro conjI impI)
  assume "st = 200 \<or> st = 201"
  then show "\<exists>r. on_put_end parse st b = Inr r \<and> res_statusCode r = st
          \<and> videoId r = (case parse b of
                           Some (JObj kvs) \<Rightarrow>
                             (case map_of kvs ''id'' of
                                Some v \<Rightarrow> if truthy v then v else JNull
                              | None \<Rightarrow> JNull)
                         | _ \<Rightarrow> JNull)"
    by (auto simp: on_put_end_def split: option.splits json.splits)
next
  show "\<exists>e. on_put_end parse 308 b = Inl e \<and> statusCode e = Some 308 \<and> isRetryable e"
    by (simp add: on_put_end_def isRetryable_def)
next
  assume "st \<noteq> 200 \<and> st \<noteq> 201 \<and> st \<noteq> 308"
  then show "\<exists>e. on_put_end parse st b = Inl e \<and> statusCode e = Some st \<and> body e = Some b"
    by (simp add: on_put_end_def)
next
  assume "src < 400"
  then show "attemptStreamUpload parse (GetResponse src (PutEnd st b)) = Some (on_put_end parse st b)"
    by simp
next
  assume "src \<ge> 400"
  then show "\<exists>e. attemptStreamUpload parse (GetResponse src put) = Some (Inl e)"
    by simp
qed

text \<open>
  The claim as first stated fails for a body whose \<open>id\<close> is falsy: for \<open>{"id":0}\<close>
  the body parses, it contains an id, and the identifier is null, not 0.
\<close>

theorem videoId_falsy_counterexample:
  "parse_fixture body_id_zero = Some (JObj [(''id'', JNum 0)])
   \<and> on_put_end parse_fixture 200 body_id_zero
       = Inr \<lparr>res_statusCode = 200, videoId = JNull, rawResponse = Some body_id_zero\<rparr>
   \<and> JNull \<noteq> JNum 0"
  by (simp add: parse_fixture_def on_put_end_def body_id_zero_def)

theorem attempt_resolution_witness:
  "on_put_end parse_fixture 201 body_id_abc
     = Inr \<lparr>res_statusCode = 201, videoId = JStr ''abc'', rawResponse = Some body_id_abc\<rparr>
   \<and> statusCode (projl (on_put_end parse_fixture 403 ''no'')) = Some 403
   \<and> body (projl (on_put_end parse_fixture 403 ''no'')) = Some ''no''
   \<and> attemptStreamUpload parse_fixture (GetResponse 200 (PutEnd 201 body_id_abc))
       = Some (on_put_end parse_fixture 201 body_id_abc)
   \<and> attemptStreamUpload parse_fixture (GetResponse 404 (PutEnd 201 body_id_abc))
       = Some (Inl (new_Error ''Failed to download video: HTTP 404''))"
  using attempt_resolution [of 201 parse_fixture body_id_abc 200 "PutEnd 201 body_id_abc"]
    attempt_resolution [of 403 parse_fixture "''no''" 404 "PutEnd 201 body_id_abc"]
  by (simp add: parse_fixture_def on_put_end_def body_id_abc_def body_id_zero_def new_Error_def
      string_of_nat.simps)

section \<open>Properties of the Size Resolver\<close>

lemma size_unavailable:
  assumes "net url = HeadResponse st hdrs" and "map_of hdrs ''content-length'' = None"
  shows "resolvedContentLength net None url =
     (Inl (new_Error
        ''Source URL does not provide Content-Length. Pass contentLength in the request body.''),
      [Probe url])"
  using assms by (simp add: resolvedContentLength_def getContentLength_def)

lemma runUpload_size_unavailable:
  assumes "contentLength req = None"
    and "head_net w (probes_done l) (the (videoUrl req)) = HeadResponse st hdrs"
    and "map_of hdrs ''content-length'' = None"
  shows "runUpload w req l =
     (Some (Inr ()), [Write (SetStatus Downloading), Probe (the (videoUrl req)),
               Write (SetStatus Failed), Write (SetCompletedAt (now_completed w)),
               Write (SetError (JobError
                 ''Source URL does not provide Content-Length. Pass contentLength in the request body.''
                 None)),
               ConsoleError ''Upload failed:''])"
  using size_unavailable [of "head_net w (probes_done l)" "the (videoUrl req)" st hdrs] assms
  by (simp add: runUpload_def runUpload_catch_def new_Error_def)

text \<open>
  Claim C7. A length supplied by the caller is what the resolution yields, unchanged and
  without a probe, and a request that carries one sends no probe at all, from its first
  line to the end of its job. Without a supplied length, a probe response that has no
  content-length header makes the resolution fail with the error whose message asks to
  pass contentLength in the request body; for such a source the whole request makes no
  transfer attempt, whether it is refused during the negotiation or its job is launched:
  a launched job ends failed with that error and without an attempt.
\<close>

theorem size_resolution:
  "resolvedContentLength net (Some n) url = (Inr n, [])
   \<and> (contentLength req = Some n \<longrightarrow> probes (snd (post_upload w srv req)) = [])
   \<and> ((\<exists>st hdrs. net url = HeadResponse st hdrs \<and> map_of hdrs ''content-length'' = None) \<longrightarrow>
        resolvedContentLength net None url =
          (Inl (new_Error
             ''Source URL does not provide Content-Length. Pass contentLength in the request body.''),
           [Probe url]))
   \<and> (contentLength req = None
        \<and> (\<forall>i. \<exists>st hdrs. head_net w i (the (videoUrl req)) = HeadResponse st hdrs
                   \<and> map_of hdrs ''content-length'' = None) \<longrightarrow>
        attempts (snd (post_upload w srv req)) = []
        \<and> (\<forall>l. attempts (snd (runUpload w req l)) = []
               \<and> status (job_after (job0 l) (snd (runUpload w req l))) = Failed
               \<and> error (job_after (job0 l) (snd (runUpload w req l))) =
                   Some (JobError
                     ''Source URL does not provide Content-Length. Pass contentLength in the request body.''
                     None)))"
proof (intro conjI impI)
  show "resolvedContentLength net (Some n) url = (Inr n, [])"
    by (simp add: resolvedContentLength_def)
next
  assume "contentLength req = Some n"
  then show "probes (snd (post_upload w srv req)) = []"
    by (rule probes_of_post_upload)
next
  assume "\<exists>st hdrs. net url = HeadResponse st hdrs \<and> map_of hdrs ''content-length'' = None"
  then show "resolvedContentLength net None url =
          (Inl (new_Error
             ''Source URL does not provide Content-Length. Pass contentLength in the request body.''),
           [Probe url])"
    using size_unavailable by blast
next
  assume a: "contentLength req = None
        \<and> (\<forall>i. \<exists>st hdrs. head_net w i (the (videoUrl req)) = HeadResponse st hdrs
                   \<and> map_of hdrs ''content-length'' = None)"
  have run: "runUpload w req l =
     (Some (Inr ()), [Write (SetStatus Downloading), Probe (the (videoUrl req)),
               Write (SetStatus Failed), Write (SetCompletedAt (now_completed w)),
               Write (SetError (JobError
                 ''Source URL does not provide Content-Length. Pass contentLength in the request body.''
                 None)),
               ConsoleError ''Upload failed:''])" for l
  proof -
    from a obtain st hdrs where
      "head_net w (probes_done l) (the (videoUrl req)) = HeadResponse st hdrs"
      "map_of hdrs ''content-length'' = None"
      by blast
    with a show ?thesis by (simp add: runUpload_size_unavailable)
  qed
  have disp: "attempts (dispatch w req l) = []" for l
    by (simp add: events_of_dispatch run sync_then_def)
  show "attempts (snd (post_upload w srv req)) = []"
    using events_of_setup [of w srv req]
    by (auto simp: events_of_post_upload disp split: sum.splits)
  show "\<forall>l. attempts (snd (runUpload w req l)) = []
               \<and> status (job_after (job0 l) (snd (runUpload w req l))) = Failed
               \<and> error (job_after (job0 l) (snd (runUpload w req l))) =
                   Some (JobError
                     ''Source URL does not provide Content-Length. Pass contentLength in the request body.''
                     None)"
    by (simp add: run)
qed

theorem size_resolution_witness:
  "resolvedContentLength (head_net world_no_length 0) (Some (Num 1000)) ''http://src.example/v.webm''
     = (Inr (Num 1000), [])
   \<and> resolvedContentLength (head_net world_no_length 0) None ''http://src.example/v.webm''
       = (Inl (new_Error
            ''Source URL does not provide Content-Length. Pass contentLength in the request body.''),
          [Probe ''http://src.example/v.webm''])
   \<and> probes (snd (post_upload world_fixture server_fixture request_fixture)) = []
   \<and> attempts (snd (post_upload world_no_length server_fixture request_negotiate)) = []
   \<and> status (job_after (job0 launch_fixture)
         (snd (runUpload world_no_length request_negotiate launch_fixture))) = Failed"
proof -
  have h1: "contentLength request_fixture = Some (Num 1000)"
    by (simp add: request_fixture_def)
  have h2: "contentLength request_negotiate = None
        \<and> (\<forall>i. \<exists>st hdrs. head_net world_no_length i (the (videoUrl request_negotiate))
                     = HeadResponse st hdrs \<and> map_of hdrs ''content-length'' = None)"
    by (simp add: request_negotiate_def request_fixture_def world_no_length_def)
  note a = size_resolution [of "head_net world_no_length 0" "Num 1000" "''http://src.example/v.webm''"
      request_fixture world_fixture server_fixture]
  note b = size_resolution [of "head_net world_no_length 0" "Num 1000" "''http://src.example/v.webm''"
      request_negotiate world_no_length server_fixture]
  from a h1 have p: "probes (snd (post_upload world_fixture server_fixture request_fixture)) = []"
    by blast
  from b h2 have q: "attempts (snd (post_upload world_no_length server_fixture request_negotiate)) = []
      \<and> status (job_after (job0 launch_fixture)
         (snd (runUpload world_no_length request_negotiate launch_fixture))) = Failed"
    by blast
  have h3: "\<exists>st hdrs. head_net world_no_length 0 ''http://src.example/v.webm'' = HeadResponse st hdrs
              \<and> map_of hdrs ''content-length'' = None"
    by (simp add: world_no_length_def)
  from a h3 have r: "resolvedContentLength (head_net world_no_length 0) None ''http://src.example/v.webm''
       = (Inl (new_Error
            ''Source URL does not provide Content-Length. Pass contentLength in the request body.''),
          [Probe ''http://src.example/v.webm''])"
    by blast
  from a p q r show ?thesis by blast
qed

text \<open>The probe is one request to the given URL: no other URL's answer matters.\<close>

lemma getContentLength_single_request:
  "net url = net' url \<Longrightarrow> getContentLength net url = getContentLength net' url"
  by (simp add: getContentLength_def)

lemma getContentLength_ignores_status:
  "getContentLength (\<lambda>u. HeadResponse st hdrs) url = getContentLength (\<lambda>u. HeadResponse st' hdrs) url"
  by (simp add: getContentLength_def)

text \<open>
  Claim C8 asks the probe to follow a redirect and report the length found at the final
  location. The code does not: for a source that answers 302 with a location and no
  length, while the location itself reports 1000 bytes, getContentLength fails with the
  size-unavailable error instead of yielding 1000.
\<close>

theorem probe_stops_at_redirect:
  "getContentLength net_redirect ''http://src.example/v.webm''
     = Inl (new_Error
         ''Source URL does not provide Content-Length. Pass contentLength in the request body.'')
   \<and> getContentLength net_redirect ''http://cdn.example/v.webm'' = Inr (Num 1000)"
  by (simp add: getContentLength_def net_redirect_def parseInt_def js_space_def is_digit_def)

section \<open>Properties of the Job Orchestrator\<close>

lemma body_token_first:
  "truthy_s (oauthToken req) \<Longrightarrow> accessToken_of w srv req = Inr (the (oauthToken req))"
  by (simp add: accessToken_of_def Let_def)

text \<open>
  Claim C6 puts the bearer header before the body's token. The code reads the body's
  token first and looks at the header only when the body has none: with both present
  the body's token is the one used; the header's is used once the body's is absent.
\<close>

theorem body_token_wins_over_header:
  "accessToken_of world_fixture server_fixture request_two_tokens = Inr ''body-token''
   \<and> accessToken_of world_fixture server_fixture (request_two_tokens\<lparr>oauthToken := None\<rparr>)
       = Inr ''header-token''"
  by (simp add: accessToken_of_def request_two_tokens_def request_fixture_def Let_def truthy_s_def
      bearer_test_def bearer_replace_def js_trim_def js_space_def to_lower_def server_fixture_def)

lemma no_job_without_source:
  "\<not> truthy_s (videoUrl req) \<Longrightarrow>
     upload_setup w srv req = (Inl (400, ErrorBody ''Missing required field: videoUrl'' None), srv, [])"
  by (simp add: upload_setup_def)

lemma no_job_without_credential:
  "accessToken_of w srv req = Inl resp \<Longrightarrow> fst (snd (upload_setup w srv req)) = srv"
  by (simp add: upload_setup_def)

text \<open>
  Claim C2 says that a creation request failing before a job id is issued leaves the
  registry unchanged. That holds for a missing source and for a credential failure (the
  two lemmas above), but not for a failure of the negotiation: the job is registered
  before the negotiation starts. On an empty registry, a request whose source reports no
  length, and one whose session request is refused, are both answered with a 400 that
  carries no job id, and both leave a pending job in the registry.
\<close>

theorem job_left_behind_by_failed_negotiation:
  "post_upload world_no_length server_fixture request_negotiate =
     (server_fixture\<lparr>jobs := [(''job_1700000000000_k3x9q2a'',
         job_fixture\<lparr>job_videoMetadata := JObj [(''snippet'', JObj [(''title'', JStr ''t'')])]\<rparr>)]\<rparr>,
      [Probe ''http://src.example/v.webm'',
       Respond 400 (ErrorBody
         ''Could not get video size. Pass contentLength in body or ensure videoUrl returns Content-Length.''
         (Some ''Source URL does not provide Content-Length. Pass contentLength in the request body.''))])
   \<and> post_upload world_no_session server_fixture request_negotiate =
     (server_fixture\<lparr>jobs := [(''job_1700000000000_k3x9q2a'',
         job_fixture\<lparr>job_videoMetadata := JObj [(''snippet'', JObj [(''title'', JStr ''t'')])]\<rparr>)]\<rparr>,
      [Probe ''http://src.example/v.webm'',
       Respond 400 (ErrorBody ''Failed to create YouTube upload session'' (Some ''denied''))])
   \<and> jobs server_fixture = []"
  by (simp add: post_upload_def upload_setup_def accessToken_of_def Let_def truthy_s_def
      request_negotiate_def request_fixture_def world_no_length_def world_no_session_def
      world_fixture_def server_fixture_def job_fixture_def has_snippet_def
      resolvedContentLength_def getContentLength_def createResumableSession_def new_Error_def
      parseInt_def js_space_def is_digit_def string_of_nat.simps)


section \<open>Properties of runUpload and the dispatch\<close>

lemma stream_throws_error_objects:
  "fst (streamVideoToYouTube att) \<noteq> Some (Inl Undefined)"
  by (simp add: streamVideoToYouTube_cases split: option.splits sum.splits)

lemma catch_settles:
  "fst (runUpload_catch w (ErrorObj err)) = Inr ()"
  by (simp add: runUpload_catch_def)

text \<open>
  runUpload never rejects: a rejection of the size resolution or of the transfer reaches
  the catch block as an Error object, and the block itself does not throw.
\<close>

lemma runUpload_never_rejects: "fst (runUpload w req l) \<noteq> Some (Inl t)"
proof -
  have "fst (runUpload_catch w t') = Inr ()"
    if "fst (streamVideoToYouTube att) = Some (Inl t')" for t' att
    using that stream_throws_error_objects [of att]
    by (cases t') (simp_all add: catch_settles)
  then show ?thesis
    by (simp add: outcome_of_runUpload catch_settles split: sum.splits option.splits)
qed

text \<open>It fails to settle exactly when the transfer does.\<close>

lemma runUpload_unsettled_iff:
  "fst (runUpload w req l) = None \<longleftrightarrow>
     (\<exists>n. fst (resolvedContentLength (head_net w (probes_done l)) (contentLength req)
               (the (videoUrl req))) = Inr n
          \<and> fst (streamVideoToYouTube (transfer_attempt w (transfer_args_of req l n))) = None)"
  by (auto simp: outcome_of_runUpload split: sum.splits option.splits)

text \<open>
  What the catch block records: the job is failed, \<open>completedAt\<close> is set, and
  \<open>error\<close> holds the message and the code of the error that was thrown.
\<close>

lemma transfer_failure_is_recorded:
  assumes "fst (resolvedContentLength (head_net w (probes_done l)) (contentLength req)
               (the (videoUrl req))) = Inr n"
    and "fst (streamVideoToYouTube (transfer_attempt w (transfer_args_of req l n)))
           = Some (Inl (ErrorObj e))"
  shows "job_after (job0 l) (snd (runUpload w req l)) =
           (job0 l)\<lparr>status := Failed, completedAt := Some (now_completed w),
                    error := Some (JobError (message e) (code e))\<rparr>"
  using assms events_of_stream [of "transfer_attempt w (transfer_args_of req l n)"]
    resolvedContentLength_events [of "head_net w (probes_done l)" "contentLength req"
      "the (videoUrl req)"]
  by (auto simp: events_of_runUpload events_of_catch job_after_append)

lemma size_failure_is_recorded:
  assumes "fst (resolvedContentLength (head_net w (probes_done l)) (contentLength req)
               (the (videoUrl req))) = Inl e"
  shows "job_after (job0 l) (snd (runUpload w req l)) =
           (job0 l)\<lparr>status := Failed, completedAt := Some (now_completed w),
                    error := Some (JobError (message e) (code e))\<rparr>"
  using assms
    resolvedContentLength_events [of "head_net w (probes_done l)" "contentLength req"
      "the (videoUrl req)"]
  by (auto simp: events_of_runUpload events_of_catch job_after_append)

lemma writes_simps [simp]:
  "completedAt_writes [] = []"
  "completedAt_writes (Write (SetCompletedAt t) # es) = t # completedAt_writes es"
  "completedAt_writes (Write (SetStatus s) # es) = completedAt_writes es"
  "completedAt_writes (Write (SetResult r) # es) = completedAt_writes es"
  "completedAt_writes (Write (SetError e) # es) = completedAt_writes es"
  "completedAt_writes (Probe u # es) = completedAt_writes es"
  "completedAt_writes (Attempt k # es) = completedAt_writes es"
  "completedAt_writes (Delay d # es) = completedAt_writes es"
  "completedAt_writes (ConsoleError m # es) = completedAt_writes es"
  "completedAt_writes (Respond c p # es) = completedAt_writes es"
  "completedAt_writes (xs @ ys) = completedAt_writes xs @ completedAt_writes ys"
  "result_writes [] = []"
  "result_writes (Write (SetResult r) # es) = r # result_writes es"
  "result_writes (Write (SetStatus s) # es) = result_writes es"
  "result_writes (Write (SetCompletedAt t) # es) = result_writes es"
  "result_writes (Write (SetError e) # es) = result_writes es"
  "result_writes (Probe u # es) = result_writes es"
  "result_writes (Attempt k # es) = result_writes es"
  "result_writes (Delay d # es) = result_writes es"
  "result_writes (ConsoleError m # es) = result_writes es"
  "result_writes (Respond c p # es) = result_writes es"
  "result_writes (xs @ ys) = result_writes xs @ result_writes ys"
  "error_writes [] = []"
  "error_writes (Write (SetError e) # es) = e # error_writes es"
  "error_writes (Write (SetStatus s) # es) = error_writes es"
  "error_writes (Write (SetCompletedAt t) # es) = error_writes es"
  "error_writes (Write (SetResult r) # es) = error_writes es"
  "error_writes (Probe u # es) = error_writes es"
  "error_writes (Attempt k # es) = error_writes es"
  "error_writes (Delay d # es) = error_writes es"
  "error_writes (ConsoleError m # es) = error_writes es"
  "error_writes (Respond c p # es) = error_writes es"
  "error_writes (xs @ ys) = error_writes xs @ error_writes ys"
  by (simp_all add: completedAt_writes_def result_writes_def error_writes_def)

lemma status_writes_simps [simp]:
  "status_writes [] = []"
  "status_writes (Write (SetStatus s) # es) = s # status_writes es"
  "status_writes (Write (SetCompletedAt t) # es) = status_writes es"
  "status_writes (Write (SetResult r) # es) = status_writes es"
  "status_writes (Write (SetError e) # es) = status_writes es"
  "status_writes (Probe u # es) = status_writes es"
  "status_writes (Attempt k # es) = status_writes es"
  "status_writes (Delay d # es) = status_writes es"
  "status_writes (ConsoleError m # es) = status_writes es"
  "status_writes (Respond c p # es) = status_writes es"
  "status_writes (xs @ ys) = status_writes xs @ status_writes ys"
  by (simp_all add: status_writes_def)

text \<open>The events of the retry loop and of a size resolution hold no assignment.\<close>

lemma no_writes_in_stream [simp]:
  "completedAt_writes (snd (streamVideoToYouTube att)) = []"
  "result_writes (snd (streamVideoToYouTube att)) = []"
  "error_writes (snd (streamVideoToYouTube att)) = []"
  "status_writes (snd (streamVideoToYouTube att)) = []"
  using events_of_stream [of att] by auto

lemma no_writes_in_resolution [simp]:
  "completedAt_writes (snd (resolvedContentLength net cl url)) = []"
  "result_writes (snd (resolvedContentLength net cl url)) = []"
  "error_writes (snd (resolvedContentLength net cl url)) = []"
  "status_writes (snd (resolvedContentLength net cl url)) = []"
  using resolvedContentLength_events [of net cl url] by auto

text \<open>
  Neither the \<open>catch\<close> handler of the synchronous mode nor the logger of the
  asynchronous mode ever runs.
\<close>

lemma dispatch_without_catch:
  "dispatch w req l =
     (if sync req
      then snd (runUpload w req l)
           @ (case fst (runUpload w req l) of
                None \<Rightarrow> []
              | Some u \<Rightarrow> sync_then (job_after (job0 l) (snd (runUpload w req l))))
      else Respond 202 (Accepted (jobId l)) # snd (runUpload w req l))"
  using runUpload_never_rejects [of w req l]
  by (cases "fst (runUpload w req l)") (auto simp: events_of_dispatch split: sum.splits)

lemma writes_of_runUpload:
  "length (completedAt_writes (snd (runUpload w req l))) \<le> 1
   \<and> length (result_writes (snd (runUpload w req l))) + length (error_writes (snd (runUpload w req l)))
       \<le> 1"
proof -
  have "fst (streamVideoToYouTube att) \<noteq> Some (Inl Undefined)" for att
    by (rule stream_throws_error_objects)
  then show ?thesis
    by (auto simp: events_of_runUpload events_of_catch split: sum.splits option.splits thrown.splits)
qed

lemma writes_of_dispatch:
  "length (completedAt_writes (dispatch w req l)) \<le> 1
   \<and> length (result_writes (dispatch w req l)) + length (error_writes (dispatch w req l)) \<le> 1"
  using writes_of_runUpload [of w req l]
  by (simp add: dispatch_without_catch sync_then_def split: option.splits)

text \<open>
  Claim C10 says that runUpload always resolves, every exception of the transfer being
  caught inside it and recorded in the job. The code misses one: building the upload
  request happens inside the download callback, and what it throws there (here for an
  upload URL that is not a URL) is caught by nothing. The request is accepted and the job
  launched; the first attempt never settles, so runUpload never settles either (it does
  not reject, and no handler of the dispatch runs), and the job stays uploading with no
  error recorded. The same world completes the job for the request with a proper URL.
\<close>

theorem uncaught_throw_leaves_job_uploading:
  "upload_setup world_checks_url server_fixture request_bad_upload_url
     = (Inr launch_bad_upload_url,
        server_fixture\<lparr>jobs := [(''job_1700000000000_k3x9q2a'', job_fixture)]\<rparr>, [])
   \<and> runUpload world_checks_url request_bad_upload_url launch_bad_upload_url
       = (None, [Write (SetStatus Downloading), Write (SetStatus Uploading), Attempt 1])
   \<and> post_upload world_checks_url server_fixture request_bad_upload_url
       = (server_fixture\<lparr>jobs := [(''job_1700000000000_k3x9q2a'',
                                      job_fixture\<lparr>status := Uploading\<rparr>)]\<rparr>,
          [Respond 202 (Accepted ''job_1700000000000_k3x9q2a''),
           Write (SetStatus Downloading), Write (SetStatus Uploading), Attempt 1])
   \<and> fst (runUpload world_checks_url request_fixture launch_fixture) = Some (Inr ())"
proof -
  have u: "upload_setup world_checks_url server_fixture request_bad_upload_url
     = (Inr launch_bad_upload_url,
        server_fixture\<lparr>jobs := [(''job_1700000000000_k3x9q2a'', job_fixture)]\<rparr>, [])"
    by (simp add: upload_setup_def accessToken_of_def Let_def truthy_s_def
        request_bad_upload_url_def request_fixture_def world_checks_url_def world_fixture_def
        server_fixture_def launch_bad_upload_url_def launch_fixture_def job_fixture_def
        string_of_nat.simps)
  have r: "runUpload world_checks_url request_bad_upload_url launch_bad_upload_url
       = (None, [Write (SetStatus Downloading), Write (SetStatus Uploading), Attempt 1])"
    by (simp add: runUpload_def resolvedContentLength_def request_bad_upload_url_def
        request_fixture_def world_checks_url_def world_fixture_def launch_bad_upload_url_def
        launch_fixture_def transfer_attempt_def transfer_args_of_def streamVideoToYouTube_cases)
  have p: "post_upload world_checks_url server_fixture request_bad_upload_url
       = (server_fixture\<lparr>jobs := [(''job_1700000000000_k3x9q2a'',
                                      job_fixture\<lparr>status := Uploading\<rparr>)]\<rparr>,
          [Respond 202 (Accepted ''job_1700000000000_k3x9q2a''),
           Write (SetStatus Downloading), Write (SetStatus Uploading), Attempt 1])"
    by (simp add: post_upload_def u dispatch_def r Let_def)
       (simp add: request_bad_upload_url_def request_fixture_def launch_bad_upload_url_def
          launch_fixture_def server_fixture_def)
  have g: "fst (runUpload world_checks_url request_fixture launch_fixture) = Some (Inr ())"
    by (simp add: runUpload_def resolvedContentLength_def request_fixture_def
        world_checks_url_def world_fixture_def launch_fixture_def transfer_attempt_def
        transfer_args_of_def streamVideoToYouTube_cases on_put_end_def)
  from u r p g show ?thesis by blast
qed

section \<open>Properties of the job's life cycle\<close>

lemma poll_views_not_empty [simp]: "poll_views j es \<noteq> []"
  by (induction j es rule: poll_views.induct) simp_all

lemma last_poll_views: "last (poll_views j es) = job_after j es"
  by (induction j es rule: poll_views.induct) simp_all

lemma views_stable:
  assumes "\<forall>v \<in> set (butlast vs). \<not> terminal (status v)"
    and "i \<le> k" and "k < length vs" and "terminal (status (vs ! i))"
  shows "vs ! k = vs ! i"
proof (cases "i < length vs - 1")
  case True
  then have "vs ! i \<in> set (butlast vs)"
    by (metis length_butlast nth_butlast nth_mem)
  with assms show ?thesis by blast
next
  case False
  with assms have "i = k" by arith
  then show ?thesis by simp
qed

lemma map_get_map_set: "map_get k (map_set k v m) = Some v"
  by (induction m) (auto simp: map_get_def)

lemma setup_launch:
  assumes "upload_setup w srv req = (Inr l, srv', evs)"
  shows "status (job0 l) = Pending \<and> map_get (jobId l) (jobs srv') = Some (job0 l)"
  using assms
  by (auto simp: upload_setup_def Let_def map_get_map_set split: if_splits sum.splits prod.splits)

lemma refused_request_writes_nothing:
  assumes "upload_setup w srv req = (Inl resp, srv', evs)"
  shows "job_after j (snd (post_upload w srv req)) = j \<and> fst (post_upload w srv req) = srv'"
  using assms events_of_setup [of w srv req]
  by (cases resp) (auto simp: post_upload_def)

lemma lifecycle_shapes:
  assumes p: "status (job0 l) = Pending"
  shows "status_history (job0 l) (dispatch w req l) \<in>
           {[Pending, Downloading, Failed], [Pending, Downloading, Uploading],
            [Pending, Downloading, Uploading, Completed],
            [Pending, Downloading, Uploading, Failed]}
         \<and> (\<forall>v \<in> set (butlast (poll_views (job0 l) (dispatch w req l))). \<not> terminal (status v))"
proof -
  let ?rc = "resolvedContentLength (head_net w (probes_done l)) (contentLength req) (the (videoUrl req))"
  have e1: "snd ?rc = [] \<or> snd ?rc = [Probe (the (videoUrl req))]"
    by (rule resolvedContentLength_events)
  show ?thesis
  proof (cases "fst ?rc")
    case (Inl err)
    with e1 p show ?thesis
      by (auto simp: dispatch_without_catch outcome_of_runUpload events_of_runUpload
          events_of_catch sync_then_def status_history_def terminal_def)
  next
    case (Inr n)
    let ?att = "transfer_attempt w (transfer_args_of req l n)"
    have e2: "snd (streamVideoToYouTube ?att) \<in>
       {[Attempt 1], [Attempt 1, Delay 2000, Attempt 2],
        [Attempt 1, Delay 2000, Attempt 2, Delay 4000, Attempt 3]}"
      by (rule events_of_stream)
    have u: "fst (streamVideoToYouTube ?att) \<noteq> Some (Inl Undefined)"
      by (rule stream_throws_error_objects)
    show ?thesis
    proof (cases "fst (streamVideoToYouTube ?att)")
      case None
      with Inr e1 e2 p show ?thesis
        by (auto simp: dispatch_without_catch outcome_of_runUpload events_of_runUpload
            status_history_def terminal_def)
    next
      case (Some out)
      show ?thesis
      proof (cases out)
        case (Inl t)
        with u Some obtain e where t: "t = ErrorObj e" by (cases t) auto
        from Inr Some Inl t e1 e2 p show ?thesis
          by (auto simp: dispatch_without_catch outcome_of_runUpload events_of_runUpload
              events_of_catch sync_then_def status_history_def terminal_def)
      next
        case (Inr res)
        with \<open>fst ?rc = Inr n\<close> Some e1 e2 p show ?thesis
          by (auto simp: dispatch_without_catch outcome_of_runUpload events_of_runUpload
              events_of_catch sync_then_def status_history_def terminal_def)
      qed
    qed
  qed
qed

text \<open>
  Claim C4. For a job created pending, over everything its request does to it (runUpload
  and the handlers of the dispatch): the history of its status is pending, downloading,
  failed, or pending, downloading, uploading followed by completed, by failed, or by
  nothing when the transfer never settles. So every change is a transition of the
  specification's graph, completed comes right after uploading, no status occurs twice,
  and a terminal status is the last one assigned. Whatever a poll sees once it has seen
  a terminal status is the same record: no view before the last is terminal. The
  registry entry that GET /job/:id returns after the run is the last of these views. A
  job whose request is refused after its registration is never assigned anything.
\<close>

theorem status_moves_forward:
  "(status (job0 l) = Pending \<longrightarrow>
     status_history (job0 l) (dispatch w req l) \<in>
       {[Pending, Downloading, Failed], [Pending, Downloading, Uploading],
        [Pending, Downloading, Uploading, Completed],
        [Pending, Downloading, Uploading, Failed]}
     \<and> (\<forall>i. Suc i < length (status_history (job0 l) (dispatch w req l)) \<longrightarrow>
            spec_transition (status_history (job0 l) (dispatch w req l) ! i)
                            (status_history (job0 l) (dispatch w req l) ! Suc i))
     \<and> (\<forall>i. Suc i < length (status_history (job0 l) (dispatch w req l))
              \<and> status_history (job0 l) (dispatch w req l) ! Suc i = Completed \<longrightarrow>
            status_history (job0 l) (dispatch w req l) ! i = Uploading)
     \<and> distinct (status_history (job0 l) (dispatch w req l))
     \<and> (\<forall>i. i < length (status_history (job0 l) (dispatch w req l))
              \<and> terminal (status_history (job0 l) (dispatch w req l) ! i) \<longrightarrow>
            Suc i = length (status_history (job0 l) (dispatch w req l)))
     \<and> (\<forall>i k. i \<le> k \<and> k < length (poll_views (job0 l) (dispatch w req l))
              \<and> terminal (status (poll_views (job0 l) (dispatch w req l) ! i)) \<longrightarrow>
            poll_views (job0 l) (dispatch w req l) ! k = poll_views (job0 l) (dispatch w req l) ! i)
     \<and> (\<forall>srv srv' evs. upload_setup w srv req = (Inr l, srv', evs) \<longrightarrow>
            get_job (fst (post_upload w srv req)) (jobId l)
              = (200, JobBody (last (poll_views (job0 l) (dispatch w req l))))))
   \<and> (\<forall>srv resp srv' evs j. upload_setup w srv req = (Inl resp, srv', evs) \<longrightarrow>
          job_after j (snd (post_upload w srv req)) = j \<and> fst (post_upload w srv req) = srv')"
proof (intro conjI impI allI)
  assume p: "status (job0 l) = Pending"
  let ?h = "status_history (job0 l) (dispatch w req l)"
  let ?vs = "poll_views (job0 l) (dispatch w req l)"
  note sh = lifecycle_shapes [OF p, of w req]
  from sh show h: "?h \<in> {[Pending, Downloading, Failed], [Pending, Downloading, Uploading],
        [Pending, Downloading, Uploading, Completed],
        [Pending, Downloading, Uploading, Failed]}" by blast
  show "\<And>i. Suc i < length ?h \<Longrightarrow> spec_transition (?h ! i) (?h ! Suc i)"
    using h by (auto simp: less_Suc_eq nth_Cons' terminal_def)
  show "\<And>i. Suc i < length ?h \<and> ?h ! Suc i = Completed \<Longrightarrow> ?h ! i = Uploading"
    using h by (auto simp: less_Suc_eq nth_Cons')
  show "distinct ?h"
    using h by auto
  show "\<And>i. i < length ?h \<and> terminal (?h ! i) \<Longrightarrow> Suc i = length ?h"
    using h by (auto simp: less_Suc_eq nth_Cons' terminal_def)
  show "\<And>i k. i \<le> k \<and> k < length ?vs \<and> terminal (status (?vs ! i)) \<Longrightarrow> ?vs ! k = ?vs ! i"
    using sh views_stable [of ?vs] by blast
  show "\<And>srv srv' evs. upload_setup w srv req = (Inr l, srv', evs) \<Longrightarrow>
            get_job (fst (post_upload w srv req)) (jobId l) = (200, JobBody (last ?vs))"
    by (simp add: post_upload_def Let_def get_job_def map_get_map_set last_poll_views)
next
  fix srv resp srv' evs j
  assume "upload_setup w srv req = (Inl resp, srv', evs)"
  then show "job_after j (snd (post_upload w srv req)) = j"
    and "fst (post_upload w srv req) = srv'"
    using refused_request_writes_nothing by blast+
qed

theorem status_moves_forward_witness:
  "status (job0 launch_fixture) = Pending
   \<and> status_history (job0 launch_fixture) (dispatch world_fixture request_fixture launch_fixture)
       = [Pending, Downloading, Uploading, Completed]
   \<and> status_history (job0 launch_fixture)
         (dispatch world_download_timeout request_fixture launch_fixture)
       = [Pending, Downloading, Uploading, Failed]
   \<and> status_history (job0 launch_bad_upload_url)
         (dispatch world_checks_url request_bad_upload_url launch_bad_upload_url)
       = [Pending, Downloading, Uploading]
   \<and> distinct (status_history (job0 launch_fixture)
         (dispatch world_fixture request_fixture launch_fixture))
   \<and> upload_setup world_fixture server_fixture request_fixture
       = (Inr launch_fixture, server_fixture\<lparr>jobs := [(jobId launch_fixture, job_fixture)]\<rparr>, [])
   \<and> get_job (fst (post_upload world_fixture server_fixture request_fixture)) (jobId launch_fixture)
       = (200, JobBody (last (poll_views (job0 launch_fixture)
                  (dispatch world_fixture request_fixture launch_fixture))))
   \<and> fst (upload_setup world_no_session server_fixture request_negotiate)
       = Inl (400, ErrorBody ''Failed to create YouTube upload session'' (Some ''denied''))
   \<and> job_after job_fixture (snd (post_upload world_no_session server_fixture request_negotiate))
       = job_fixture"
proof -
  have p: "status (job0 launch_fixture) = Pending"
    by (simp add: launch_fixture_def job_fixture_def)
  have s: "fst (streamVideoToYouTube (transfer_attempt world_fixture
                 (transfer_args_of request_fixture launch_fixture (Num 1000))))
             = Some (Inr \<lparr>res_statusCode = 200, videoId = JStr ''abc'',
                         rawResponse = Some body_id_abc\<rparr>)"
    by (simp add: streamVideoToYouTube_cases transfer_attempt_def world_fixture_def
        net_503_503_ok_def on_put_end_def isRetryable_def new_Error_def parse_fixture_def
        body_id_abc_def body_id_zero_def)
  have h: "status_history (job0 launch_fixture) (dispatch world_fixture request_fixture launch_fixture)
       = [Pending, Downloading, Uploading, Completed]"
    using p s
    by (simp add: status_history_def dispatch_without_catch events_of_runUpload
        outcome_of_runUpload sync_then_def resolvedContentLength_def request_fixture_def)
  have hf: "status_history (job0 launch_fixture)
          (dispatch world_download_timeout request_fixture launch_fixture)
       = [Pending, Downloading, Uploading, Failed]"
    by (simp add: status_history_def dispatch_def runUpload_def resolvedContentLength_def
        request_fixture_def world_download_timeout_def world_fixture_def
        launch_fixture_def job_fixture_def transfer_attempt_def sync_then_def
        transfer_args_of_def streamVideoToYouTube_cases isRetryable_def new_Error_def
        runUpload_catch_def)
  have hu: "status_history (job0 launch_bad_upload_url)
          (dispatch world_checks_url request_bad_upload_url launch_bad_upload_url)
       = [Pending, Downloading, Uploading]"
    by (simp add: status_history_def dispatch_def runUpload_def resolvedContentLength_def
        request_bad_upload_url_def request_fixture_def world_checks_url_def world_fixture_def
        launch_bad_upload_url_def launch_fixture_def job_fixture_def transfer_attempt_def
        transfer_args_of_def streamVideoToYouTube_cases)
  have u: "upload_setup world_fixture server_fixture request_fixture
       = (Inr launch_fixture, server_fixture\<lparr>jobs := [(jobId launch_fixture, job_fixture)]\<rparr>, [])"
    by (simp add: upload_setup_def accessToken_of_def Let_def truthy_s_def request_fixture_def
        world_fixture_def server_fixture_def launch_fixture_def job_fixture_def
        string_of_nat.simps)
  have v: "upload_setup world_no_session server_fixture request_negotiate
       = (Inl (400, ErrorBody ''Failed to create YouTube upload session'' (Some ''denied'')),
          server_fixture\<lparr>jobs := [(''job_1700000000000_k3x9q2a'',
            job_fixture\<lparr>job_videoMetadata := JObj [(''snippet'', JObj [(''title'', JStr ''t'')])]\<rparr>)]\<rparr>,
          [Probe ''http://src.example/v.webm''])"
    by (simp add: upload_setup_def accessToken_of_def Let_def truthy_s_def
        request_negotiate_def request_fixture_def world_no_session_def
        world_fixture_def server_fixture_def job_fixture_def has_snippet_def
        resolvedContentLength_def getContentLength_def createResumableSession_def new_Error_def
        parseInt_def js_space_def is_digit_def string_of_nat.simps)
  note t = status_moves_forward [of launch_fixture world_fixture request_fixture]
  note t' = status_moves_forward [of launch_fixture world_no_session request_negotiate,
      THEN conjunct2, rule_format, OF v]
  from t p u have g: "get_job (fst (post_upload world_fixture server_fixture request_fixture))
         (jobId launch_fixture)
       = (200, JobBody (last (poll_views (job0 launch_fixture)
                  (dispatch world_fixture request_fixture launch_fixture))))"
    by blast
  from t' have o: "job_after job_fixture
        (snd (post_upload world_no_session server_fixture request_negotiate)) = job_fixture"
    by blast
  from t p have dh: "distinct (status_history (job0 launch_fixture)
         (dispatch world_fixture request_fixture launch_fixture))"
    by blast
  have w0: "fst (upload_setup world_no_session server_fixture request_negotiate)
       = Inl (400, ErrorBody ''Failed to create YouTube upload session'' (Some ''denied''))"
    by (simp add: v)
  from p h hf hu dh u g w0 o show ?thesis by blast
qed

section \<open>Properties of the registry sweep\<close>

lemma fold_map_delete:
  "fold (\<lambda>(i, j) m. map_delete i m) ds m = filter (\<lambda>(k, v). k \<notin> fst ` set ds) m"
proof (induction ds arbitrary: m)
  case Nil
  then show ?case by simp
next
  case (Cons d ds)
  obtain i j where d: "d = (i, j)" by (cases d)
  have "fold (\<lambda>(i, j) m. map_delete i m) (d # ds) m
          = filter (\<lambda>(k, v). k \<notin> fst ` set ds) (map_delete i m)"
    by (simp add: d Cons.IH)
  also have "\<dots> = filter (\<lambda>(k, v). k \<notin> fst ` set (d # ds)) m"
    by (auto simp: map_delete_def d intro: filter_cong)
  finally show ?case .
qed

lemma sweep_small: "length js \<le> 100 \<Longrightarrow> sweep js = js"
  by (simp add: sweep_def)

text \<open>A Map has one entry per key, and \<open>set\<close> and \<open>delete\<close> keep it so.\<close>

lemma keys_map_set:
  "map fst (map_set k v m) = (if k \<in> fst ` set m then map fst m else map fst m @ [k])"
  by (induction m) (force simp: image_iff)+

lemma distinct_map_set:
  "distinct (map fst m) \<Longrightarrow> distinct (map fst (map_set k v m))"
  by (simp add: keys_map_set)

lemma distinct_map_delete:
  "distinct (map fst m) \<Longrightarrow> distinct (map fst (map_delete k m))"
  by (simp add: map_delete_def distinct_map_filter)

lemma registry_keeps_one_entry_per_id:
  "distinct (map fst (jobs srv)) \<Longrightarrow> distinct (map fst (jobs (fst (post_upload w srv req))))"
  by (auto simp: post_upload_def upload_setup_def Let_def distinct_map_set
      split: prod.splits sum.splits if_splits)

lemma sweep_as_filter:
  assumes dk: "distinct (map fst js)" and big: "length js > 100"
  shows "sweep js =
     filter (\<lambda>e. e \<notin> set (take (length js - 100) (sort_key (\<lambda>(i, j). createdAt j) js))) js"
proof -
  let ?S = "sort_key (\<lambda>(i, j). createdAt j) js"
  let ?D = "take (length js - 100) ?S"
  have inj: "inj_on fst (set js)"
    using dk by (simp add: distinct_map)
  have sub: "set ?D \<subseteq> set js"
    using set_take_subset [of "length js - 100" ?S] by simp
  have "filter (\<lambda>(k, v). k \<notin> fst ` set ?D) js = filter (\<lambda>e. e \<notin> set ?D) js"
  proof (rule filter_cong [OF refl])
    fix e assume e: "e \<in> set js"
    have "fst e \<in> fst ` set ?D \<longleftrightarrow> e \<in> set ?D"
    proof
      assume "fst e \<in> fst ` set ?D"
      then obtain d where d: "d \<in> set ?D" "fst d = fst e" by auto
      with sub have "d \<in> set js" by blast
      with inj e d(2) have "d = e" by (auto dest: inj_onD)
      with d(1) show "e \<in> set ?D" by simp
    qed auto
    then show "(case e of (k, v) \<Rightarrow> k \<notin> fst ` set ?D) = (e \<notin> set ?D)"
      by (cases e) auto
  qed
  with big show ?thesis
    by (simp add: sweep_def Let_def fold_map_delete)
qed

text \<open>
  Claim C9. For a registry (one entry per job id) that holds more than 100 jobs, after
  the sweep it holds exactly 100; the entries kept are the last 100 of the registry
  sorted by creation time, the entries removed are the ones before them, so every
  removed job was created no later than every job kept; and the jobs kept stay in their
  order of registration.
\<close>

theorem sweep_keeps_most_recent:
  assumes dk: "distinct (map fst js)" and big: "length js > 100"
  shows "length (sweep js) = 100
       \<and> set (sweep js) = set (drop (length js - 100) (sort_key (\<lambda>(i, j). createdAt j) js))
       \<and> set js - set (sweep js) = set (take (length js - 100) (sort_key (\<lambda>(i, j). createdAt j) js))
       \<and> (\<forall>a \<in> set js - set (sweep js). \<forall>b \<in> set (sweep js).
             createdAt (snd a) \<le> createdAt (snd b))
       \<and> sweep js = filter (\<lambda>e. e \<in> set (sweep js)) js"
proof -
  let ?f = "\<lambda>(i, j). createdAt j"
  let ?S = "sort_key ?f js"
  let ?n = "length js - 100"
  let ?D = "take ?n ?S"
  let ?R = "drop ?n ?S"
  have dj: "distinct js"
    using dk by (simp add: distinct_map)
  then have dS: "distinct ?S" by simp
  have split: "?D @ ?R = ?S" by simp
  have disj: "set ?D \<inter> set ?R = {}"
    using dS by (simp add: set_take_disj_set_drop_if_distinct)
  have un: "set ?D \<union> set ?R = set js"
    using set_append [of ?D ?R] by (simp del: set_append)
  have sw: "sweep js = filter (\<lambda>e. e \<notin> set ?D) js"
    using dk big by (rule sweep_as_filter)
  have kept: "set (sweep js) = set ?R"
    using disj un by (auto simp: sw)
  have gone: "set js - set (sweep js) = set ?D"
    using disj un by (auto simp: sw)
  have dsw: "distinct (sweep js)"
    using dj by (simp add: sw)
  have "length (sweep js) = card (set (sweep js))"
    using dsw by (simp add: distinct_card)
  also have "\<dots> = length ?R"
    using dS by (simp add: kept distinct_card)
  also have "\<dots> = 100"
    using big by simp
  finally have len: "length (sweep js) = 100" .
  have "sorted (map ?f (?D @ ?R))"
    by (simp only: split sorted_sort_key)
  then have "sorted (map ?f ?D @ map ?f ?R)"
    by (simp only: map_append)
  then have ord: "\<forall>a \<in> set ?D. \<forall>b \<in> set ?R. ?f a \<le> ?f b"
    unfolding sorted_append set_map by blast
  have older: "\<forall>a \<in> set js - set (sweep js). \<forall>b \<in> set (sweep js).
             createdAt (snd a) \<le> createdAt (snd b)"
  proof (intro ballI)
    fix a b assume a: "a \<in> set js - set (sweep js)" and b: "b \<in> set (sweep js)"
    from a have "a \<in> set ?D" by (simp only: gone)
    moreover from b have "b \<in> set ?R" by (simp only: kept)
    ultimately have "?f a \<le> ?f b" using ord by blast
    then show "createdAt (snd a) \<le> createdAt (snd b)" by (simp add: case_prod_beta)
  qed
  have same_order: "sweep js = filter (\<lambda>e. e \<in> set (sweep js)) js"
  proof -
    have "filter (\<lambda>e. e \<in> set (sweep js)) js = filter (\<lambda>e. e \<notin> set ?D) js"
      using disj un by (intro filter_cong [OF refl]) (auto simp: kept)
    then show ?thesis by (simp add: sw)
  qed
  from len kept gone older same_order show ?thesis by blast
qed

theorem sweep_keeps_most_recent_witness:
  "distinct (map fst registry_fixture) \<and> 100 < length registry_fixture
   \<and> length (sweep registry_fixture) = 100
   \<and> set registry_fixture - set (sweep registry_fixture)
       = {(''job_'', job_fixture\<lparr>job_id := ''job_'', createdAt := 0\<rparr>)}"
proof -
  have d: "distinct (map fst registry_fixture)"
    by (simp add: registry_fixture_def distinct_map o_def inj_on_def)
  have l: "100 < length registry_fixture"
    by (simp add: registry_fixture_def)
  have "map (\<lambda>(i, j). createdAt j) registry_fixture = [0..<101]"
    by (simp add: registry_fixture_def o_def map_idI)
  then have "sorted (map (\<lambda>(i, j). createdAt j) registry_fixture)"
    by simp
  then have srt: "sort_key (\<lambda>(i, j). createdAt j) registry_fixture = registry_fixture"
    by (rule sort_key_id_if_sorted)
  have tk: "take (length registry_fixture - 100) registry_fixture
              = [(''job_'', job_fixture\<lparr>job_id := ''job_'', createdAt := 0\<rparr>)]"
    by (simp add: registry_fixture_def take_map)
  note t = sweep_keeps_most_recent [OF d l]
  from t have a: "length (sweep registry_fixture) = 100"
    by blast
  from t have "set registry_fixture - set (sweep registry_fixture)
      = set (take (length registry_fixture - 100)
               (sort_key (\<lambda>(i, j). createdAt j) registry_fixture))"
    by blast
  then have b: "set registry_fixture - set (sweep registry_fixture)
      = {(''job_'', job_fixture\<lparr>job_id := ''job_'', createdAt := 0\<rparr>)}"
    by (simp only: srt tk list.set)
  from d l a b show ?thesis
    by blast
qed

end
